theory Spec2Isabelle
  imports Complex_Main "HOL-Library.Word"
begin

section \<open>Resource vectors and per-priority-class tables\<close>

text \<open>
  The scheduling contexts of \<^verbatim>\<open>internal/scheduler/context/context.go\<close> do their
  accounting on two container types of another package of the repository,
  \<^verbatim>\<open>schedulerobjects\<close>: \<^verbatim>\<open>ResourceList\<close> (a Go map from resource name to a
  Kubernetes quantity) and \<^verbatim>\<open>QuantityByTAndResourceType[string]\<close>
  (a Go map from priority-class name to a \<^verbatim>\<open>ResourceList\<close>). The requests of a job
  arrive as a Kubernetes \<^verbatim>\<open>v1.ResourceList\<close>, again a map from resource name to
  quantity.

  A Kubernetes quantity is an exact decimal with at most nine fractional digits, and
  its addition and subtraction are exact and signed; it is represented here by the
  integer number of nano-units. A Go map is a partial function; a nil map reads as the
  empty map.
\<close>

type_synonym v1ResourceList = "string \<rightharpoonup> int"
type_synonym ResourceList = "string \<rightharpoonup> int"
type_synonym QuantityByTAndResourceType = "string \<rightharpoonup> ResourceList"

text \<open>
  Modelled from the spec: the arithmetic of \<^verbatim>\<open>schedulerobjects.ResourceList\<close> and
  \<^verbatim>\<open>schedulerobjects.QuantityByTAndResourceType\<close> is missing from the sources. The
  spec describes a ``map resource-name \<open>\<rightarrow>\<close> scalar quantity with arithmetic (add, sub,
  zero check)'' with value semantics, ``the vector is sparse'', and a per-class ``map
  priority-class name \<open>\<rightarrow>\<close> resource vector''; it asks to ``preserve signed
  arithmetic rather than clamping at zero'', and its scenarios compare vectors by
  their quantities (an absent resource and a resource of quantity zero are the same
  allocation). Accordingly a resource that is not present counts as zero, and the
  operations the contexts call are: reading a quantity; adding and subtracting a
  request list entry by entry, where each resource of the operand is read (zero if
  missing), changed by the signed amount and written back, and a resource that the
  operand does not name is left alone; the zero check; and the same on the table
  entry of one class, where a missing class is read as the empty vector and written
  back. The spec's design note ``subtraction of a resource not present in the vector
  is a no-op yielding zero'' is read with the rest: a resource that is not present is
  worth zero, and subtracting a list that does not name a resource does nothing to it;
  it is not read as clamping, which the spec rules out. The cancellation and sum
  properties below rest on this signed arithmetic.
\<close>

definition rl_Get :: "ResourceList \<Rightarrow> string \<Rightarrow> int" where
  "rl_Get a t = (case a t of None \<Rightarrow> 0 | Some q \<Rightarrow> q)"

definition rl_AddV1ResourceList :: "ResourceList \<Rightarrow> v1ResourceList \<Rightarrow> ResourceList" where
  "rl_AddV1ResourceList a b =
     (\<lambda>t. case b t of None \<Rightarrow> a t | Some qb \<Rightarrow> Some (rl_Get a t + qb))"

definition rl_SubV1ResourceList :: "ResourceList \<Rightarrow> v1ResourceList \<Rightarrow> ResourceList" where
  "rl_SubV1ResourceList a b =
     (\<lambda>t. case b t of None \<Rightarrow> a t | Some qb \<Rightarrow> Some (rl_Get a t - qb))"

definition rl_Add :: "ResourceList \<Rightarrow> ResourceList \<Rightarrow> ResourceList" where
  "rl_Add a b = (\<lambda>t. case b t of None \<Rightarrow> a t | Some qb \<Rightarrow> Some (rl_Get a t + qb))"


definition qt_index :: "QuantityByTAndResourceType \<Rightarrow> string \<Rightarrow> ResourceList" where
  "qt_index a p = (case a p of None \<Rightarrow> Map.empty | Some rl \<Rightarrow> rl)"

definition qt_AddV1ResourceList ::
  "QuantityByTAndResourceType \<Rightarrow> string \<Rightarrow> v1ResourceList \<Rightarrow> QuantityByTAndResourceType" where
  "qt_AddV1ResourceList a p rlb = a(p \<mapsto> rl_AddV1ResourceList (qt_index a p) rlb)"

definition qt_SubV1ResourceList ::
  "QuantityByTAndResourceType \<Rightarrow> string \<Rightarrow> v1ResourceList \<Rightarrow> QuantityByTAndResourceType" where
  "qt_SubV1ResourceList a p rlb = a(p \<mapsto> rl_SubV1ResourceList (qt_index a p) rlb)"


definition qt_DeepCopy :: "QuantityByTAndResourceType \<Rightarrow> QuantityByTAndResourceType" where
  "qt_DeepCopy a = a"

text \<open>
  The quantity of resource \<open>t\<close> that a table holds for class \<open>p\<close>, and the total over
  all classes of the table (the ``sum over priority classes'' of the invariants).
\<close>

definition qt_Get :: "QuantityByTAndResourceType \<Rightarrow> string \<Rightarrow> string \<Rightarrow> int" where
  "qt_Get a p t = rl_Get (qt_index a p) t"

definition qt_Total :: "QuantityByTAndResourceType \<Rightarrow> string \<Rightarrow> int" where
  "qt_Total a t = (\<Sum>p \<in> dom a. qt_Get a p t)"

section \<open>Jobs and job scheduling contexts\<close>

text \<open>
  \<^verbatim>\<open>interfaces.LegacySchedulerJob\<close> is an interface; a job is the record of what its
  getters return. Affinity and tolerations are Kubernetes structures that only the
  scheduling-key generator looks into.
\<close>

typedecl Affinity
typedecl Toleration

record LegacySchedulerJob =
  GetId :: string
  GetQueue :: string
  GetPriorityClassName :: string
  GetRequests :: v1ResourceList
  GetNodeSelector :: "string \<rightharpoonup> string"
  GetAffinity :: "Affinity option"
  GetTolerations :: "Toleration list"

record PodRequirements =
  Requests :: v1ResourceList

text \<open>
  \<^verbatim>\<open>JobSchedulingContext\<close>: \<open>Job\<close> is an interface value and \<open>PodRequirements\<close> a
  pointer, both may be nil (\<^verbatim>\<open>ClearJobSpecs\<close> sets \<open>Job\<close> to nil). The creation time
  and the pod scheduling context are never read by the operations below.
\<close>

record JobSchedulingContext =
  JobId :: string
  Job :: "LegacySchedulerJob option"
  PodRequirements :: "PodRequirements option"
  UnschedulableReason :: string

definition IsSuccessful :: "JobSchedulingContext \<Rightarrow> bool" where
  "IsSuccessful jctx = (UnschedulableReason jctx = [])"

record GangSchedulingContext =
  GangQueue :: string
  PriorityClassName :: string
  JobSchedulingContexts :: "JobSchedulingContext list"
  TotalResourceRequests :: ResourceList
  AllJobsEvicted :: bool
  NodeUniformityLabel :: string

section \<open>Queue and round contexts\<close>

text \<open>
  Counters are Go \<^verbatim>\<open>int\<close>, 64 bits wide and signed on the platforms the scheduler
  is built for; \<open>+\<close> and \<open>-\<close> on a word wrap as the machine does (\<open>sint\<close> reads
  the signed value). Weights are
  \<^verbatim>\<open>float64\<close>; the only arithmetic on them is the accumulation of \<open>WeightSum\<close>,
  written with real addition (its rounding is not represented, and nothing below
  depends on the value of a sum of weights). Time stamps, rate limiters, the fairness
  cost provider and the back pointer from a queue context to its round are left out:
  no operation below reads or writes them.
\<close>

record QueueSchedulingContext =
  QExecutorId :: string
  Queue :: string
  Weight :: real
  Allocated :: ResourceList
  AllocatedByPriorityClass :: QuantityByTAndResourceType
  QScheduledResourcesByPriorityClass :: QuantityByTAndResourceType
  QEvictedResourcesByPriorityClass :: QuantityByTAndResourceType
  SuccessfulJobSchedulingContexts :: "string \<rightharpoonup> JobSchedulingContext"
  UnsuccessfulJobSchedulingContexts :: "string \<rightharpoonup> JobSchedulingContext"
  EvictedJobsById :: "string \<rightharpoonup> bool"

record PriorityClass =
  Priority :: "32 word"

record 'k SchedulingContext =
  ExecutorId :: string
  Pool :: string
  PriorityClasses :: "string \<rightharpoonup> PriorityClass"
  DefaultPriorityClass :: string
  WeightSum :: real
  QueueSchedulingContexts :: "string \<rightharpoonup> QueueSchedulingContext"
  TotalResources :: ResourceList
  ScheduledResources :: ResourceList
  ScheduledResourcesByPriorityClass :: QuantityByTAndResourceType
  EvictedResources :: ResourceList
  EvictedResourcesByPriorityClass :: QuantityByTAndResourceType
  NumScheduledJobs :: "64 word"
  NumScheduledGangs :: "64 word"
  NumEvictedJobs :: "64 word"
  TerminationReason :: string
  UnfeasibleSchedulingKeys :: "'k \<rightharpoonup> JobSchedulingContext"

text \<open>
  The errors the operations return. A nil dereference is a panic, not an error value:
  an operation that panics returns nothing, and is \<open>None\<close> below.
\<close>

datatype error =
  QueueContextExists
  | NoContextForQueue
  | JobAlreadySuccessful
  | JobAlreadyUnsuccessful
  | JobRequirementsMissing
  | JobAlreadyEvicted

definition NewSchedulingContext ::
  "string \<Rightarrow> string \<Rightarrow> (string \<rightharpoonup> PriorityClass) \<Rightarrow> string \<Rightarrow> ResourceList
    \<Rightarrow> 'k SchedulingContext" where
  "NewSchedulingContext executorId pool priorityClasses defaultPriorityClass totalResources =
     \<lparr> ExecutorId = executorId,
       Pool = pool,
       PriorityClasses = priorityClasses,
       DefaultPriorityClass = defaultPriorityClass,
       WeightSum = 0,
       QueueSchedulingContexts = Map.empty,
       TotalResources = totalResources,
       ScheduledResources = Map.empty,
       ScheduledResourcesByPriorityClass = Map.empty,
       EvictedResources = Map.empty,
       EvictedResourcesByPriorityClass = Map.empty,
       NumScheduledJobs = 0,
       NumScheduledGangs = 0,
       NumEvictedJobs = 0,
       TerminationReason = [],
       UnfeasibleSchedulingKeys = Map.empty \<rparr>"

text \<open>
  The scheduling key of a job. The generator's \<^verbatim>\<open>Key\<close> function is not part of the
  sources; it is the parameter \<open>Key\<close>. An unknown priority class gives priority 0.
\<close>

definition SchedulingKeyFromLegacySchedulerJob ::
  "((string \<rightharpoonup> string) \<Rightarrow> Affinity option \<Rightarrow> Toleration list \<Rightarrow> v1ResourceList \<Rightarrow> 32 word \<Rightarrow> 'k)
    \<Rightarrow> 'k SchedulingContext \<Rightarrow> LegacySchedulerJob \<Rightarrow> 'k" where
  "SchedulingKeyFromLegacySchedulerJob Key sctx job =
     (let priority = (case PriorityClasses sctx (GetPriorityClassName job) of
                        None \<Rightarrow> 0 | Some priorityClass \<Rightarrow> Priority priorityClass)
      in Key (GetNodeSelector job) (GetAffinity job) (GetTolerations job) (GetRequests job)
           priority)"

definition ClearUnfeasibleSchedulingKeys :: "'k SchedulingContext \<Rightarrow> 'k SchedulingContext" where
  "ClearUnfeasibleSchedulingKeys sctx = sctx\<lparr>UnfeasibleSchedulingKeys := Map.empty\<rparr>"

text \<open>
  Modelled from the spec: the sources hold no function that inserts into the cache of
  unfeasible keys; ``callers add (key, JobDecision)'' by assigning to the exported map.
\<close>

definition AddUnfeasibleSchedulingKey ::
  "'k SchedulingContext \<Rightarrow> 'k \<Rightarrow> JobSchedulingContext \<Rightarrow> 'k SchedulingContext" where
  "AddUnfeasibleSchedulingKey sctx key jctx =
     sctx\<lparr>UnfeasibleSchedulingKeys := (UnfeasibleSchedulingKeys sctx)(key \<mapsto> jctx)\<rparr>"

subsection \<open>Registering a queue\<close>

text \<open>
  The initial allocation is a Go map (or nil); it is given by the list of its entries
  in the order in which the \<^verbatim>\<open>range\<close> loop visits them. The loop adds every entry to
  a fresh resource list; the stored table is the deep copy of the map.
\<close>

definition AddQueueSchedulingContext ::
  "'k SchedulingContext \<Rightarrow> string \<Rightarrow> real \<Rightarrow> (string \<times> ResourceList) list option
    \<Rightarrow> error option \<times> 'k SchedulingContext" where
  "AddQueueSchedulingContext sctx queue weight initialAllocatedByPriorityClass =
     (if queue \<in> dom (QueueSchedulingContexts sctx) then (Some QueueContextExists, sctx)
      else
        let entries = (case initialAllocatedByPriorityClass of None \<Rightarrow> [] | Some es \<Rightarrow> es);
            initial = qt_DeepCopy (map_of entries);
            allocated = fold (\<lambda>(p, rl) acc. rl_Add acc rl) entries Map.empty;
            qctx = \<lparr> QExecutorId = ExecutorId sctx,
                     Queue = queue,
                     Weight = weight,
                     Allocated = allocated,
                     AllocatedByPriorityClass = initial,
                     QScheduledResourcesByPriorityClass = Map.empty,
                     QEvictedResourcesByPriorityClass = Map.empty,
                     SuccessfulJobSchedulingContexts = Map.empty,
                     UnsuccessfulJobSchedulingContexts = Map.empty,
                     EvictedJobsById = Map.empty \<rparr>
        in (None, sctx\<lparr> WeightSum := WeightSum sctx + weight,
                        QueueSchedulingContexts := (QueueSchedulingContexts sctx)(queue \<mapsto> qctx) \<rparr>))"

subsection \<open>Recording a job decision\<close>

definition QueueSchedulingContext_AddJobSchedulingContext ::
  "QueueSchedulingContext \<Rightarrow> JobSchedulingContext
    \<Rightarrow> ((error + bool) \<times> QueueSchedulingContext) option" where
  "QueueSchedulingContext_AddJobSchedulingContext qctx jctx =
     (if JobId jctx \<in> dom (SuccessfulJobSchedulingContexts qctx)
        then Some (Inl JobAlreadySuccessful, qctx)
      else if JobId jctx \<in> dom (UnsuccessfulJobSchedulingContexts qctx)
        then Some (Inl JobAlreadyUnsuccessful, qctx)
      else
        let evictedInThisRound = (JobId jctx \<in> dom (EvictedJobsById qctx)) in
        if IsSuccessful jctx then
          (case PodRequirements jctx of
             None \<Rightarrow> Some (Inl JobRequirementsMissing, qctx)
           | Some req \<Rightarrow>
              (case Job jctx of
                 None \<Rightarrow> None
               | Some job \<Rightarrow>
                  let qctx1 = qctx\<lparr>
                        Allocated := rl_AddV1ResourceList (Allocated qctx) (Requests req),
                        AllocatedByPriorityClass :=
                          qt_AddV1ResourceList (AllocatedByPriorityClass qctx)
                            (GetPriorityClassName job) (Requests req) \<rparr>
                  in if evictedInThisRound then
                       Some (Inr evictedInThisRound, qctx1\<lparr>
                         EvictedJobsById := (EvictedJobsById qctx1)(JobId jctx := None),
                         QEvictedResourcesByPriorityClass :=
                           qt_SubV1ResourceList (QEvictedResourcesByPriorityClass qctx1)
                             (GetPriorityClassName job) (Requests req) \<rparr>)
                     else
                       Some (Inr evictedInThisRound, qctx1\<lparr>
                         SuccessfulJobSchedulingContexts :=
                           (SuccessfulJobSchedulingContexts qctx1)(JobId jctx \<mapsto> jctx),
                         QScheduledResourcesByPriorityClass :=
                           qt_AddV1ResourceList (QScheduledResourcesByPriorityClass qctx1)
                             (GetPriorityClassName job) (Requests req) \<rparr>)))
        else
          Some (Inr evictedInThisRound, qctx\<lparr>
            UnsuccessfulJobSchedulingContexts :=
              (UnsuccessfulJobSchedulingContexts qctx)(JobId jctx \<mapsto> jctx) \<rparr>))"

text \<open>
  The round looks the queue context up through a pointer, so whatever the queue
  operation did to it is in the round's map afterwards, also when an error comes back.
\<close>

definition AddJobSchedulingContext ::
  "'k SchedulingContext \<Rightarrow> JobSchedulingContext
    \<Rightarrow> ((error + bool) \<times> 'k SchedulingContext) option" where
  "AddJobSchedulingContext sctx jctx =
     (case Job jctx of
        None \<Rightarrow> None
      | Some job \<Rightarrow>
         (case QueueSchedulingContexts sctx (GetQueue job) of
            None \<Rightarrow> Some (Inl NoContextForQueue, sctx)
          | Some qctx \<Rightarrow>
             (case QueueSchedulingContext_AddJobSchedulingContext qctx jctx of
                None \<Rightarrow> None
              | Some (res, qctx') \<Rightarrow>
                 let sctx1 = sctx\<lparr>QueueSchedulingContexts :=
                               (QueueSchedulingContexts sctx)(GetQueue job \<mapsto> qctx')\<rparr>
                 in (case res of
                       Inl err \<Rightarrow> Some (Inl err, sctx1)
                     | Inr evictedInThisRound \<Rightarrow>
                        if IsSuccessful jctx then
                          (case PodRequirements jctx of
                             None \<Rightarrow> None
                           | Some req \<Rightarrow>
                              if evictedInThisRound then
                                Some (Inr evictedInThisRound, sctx1\<lparr>
                                  EvictedResources :=
                                    rl_SubV1ResourceList (EvictedResources sctx1) (Requests req),
                                  EvictedResourcesByPriorityClass :=
                                    qt_SubV1ResourceList (EvictedResourcesByPriorityClass sctx1)
                                      (GetPriorityClassName job) (Requests req),
                                  NumEvictedJobs := NumEvictedJobs sctx1 - 1 \<rparr>)
                              else
                                Some (Inr evictedInThisRound, sctx1\<lparr>
                                  ScheduledResources :=
                                    rl_AddV1ResourceList (ScheduledResources sctx1) (Requests req),
                                  ScheduledResourcesByPriorityClass :=
                                    qt_AddV1ResourceList (ScheduledResourcesByPriorityClass sctx1)
                                      (GetPriorityClassName job) (Requests req),
                                  NumScheduledJobs := NumScheduledJobs sctx1 + 1 \<rparr>))
                        else Some (Inr evictedInThisRound, sctx1)))))"

text \<open>
  The loop of \<^verbatim>\<open>AddGangSchedulingContext\<close>, with its two flags as accumulators; it
  stops at the first error and keeps what the earlier iterations did.
\<close>

fun AddGangSchedulingContext_loop ::
  "'k SchedulingContext \<Rightarrow> JobSchedulingContext list \<Rightarrow> bool \<Rightarrow> bool
    \<Rightarrow> ((error + bool \<times> bool) \<times> 'k SchedulingContext) option" where
  "AddGangSchedulingContext_loop sctx [] allJobsEvictedInThisRound allJobsSuccessful =
     Some (Inr (allJobsEvictedInThisRound, allJobsSuccessful), sctx)"
| "AddGangSchedulingContext_loop sctx (jctx # jctxs) allJobsEvictedInThisRound allJobsSuccessful =
     (case AddJobSchedulingContext sctx jctx of
        None \<Rightarrow> None
      | Some (Inl err, sctx') \<Rightarrow> Some (Inl err, sctx')
      | Some (Inr evictedInThisRound, sctx') \<Rightarrow>
          AddGangSchedulingContext_loop sctx' jctxs
            (allJobsEvictedInThisRound \<and> evictedInThisRound)
            (allJobsSuccessful \<and> IsSuccessful jctx))"

definition AddGangSchedulingContext ::
  "'k SchedulingContext \<Rightarrow> GangSchedulingContext
    \<Rightarrow> ((error + bool) \<times> 'k SchedulingContext) option" where
  "AddGangSchedulingContext sctx gctx =
     (case AddGangSchedulingContext_loop sctx (JobSchedulingContexts gctx) True True of
        None \<Rightarrow> None
      | Some (Inl err, sctx') \<Rightarrow> Some (Inl err, sctx')
      | Some (Inr (allJobsEvictedInThisRound, allJobsSuccessful), sctx') \<Rightarrow>
          Some (Inr allJobsEvictedInThisRound,
                if allJobsSuccessful \<and> \<not> allJobsEvictedInThisRound
                then sctx'\<lparr>NumScheduledGangs := NumScheduledGangs sctx' + 1\<rparr>
                else sctx'))"

subsection \<open>Evicting\<close>

text \<open>The job handed to the evicting operations is a non-nil interface value.\<close>

definition QueueSchedulingContext_EvictJob ::
  "QueueSchedulingContext \<Rightarrow> LegacySchedulerJob \<Rightarrow> (error + bool) \<times> QueueSchedulingContext" where
  "QueueSchedulingContext_EvictJob qctx job =
     (let jobId = GetId job in
      if jobId \<in> dom (UnsuccessfulJobSchedulingContexts qctx)
        then (Inl JobAlreadyUnsuccessful, qctx)
      else if jobId \<in> dom (EvictedJobsById qctx)
        then (Inl JobAlreadyEvicted, qctx)
      else
        let rl = GetRequests job;
            scheduledInThisRound = (jobId \<in> dom (SuccessfulJobSchedulingContexts qctx));
            qctx1 = (if scheduledInThisRound then
                       qctx\<lparr> QScheduledResourcesByPriorityClass :=
                               qt_SubV1ResourceList (QScheduledResourcesByPriorityClass qctx)
                                 (GetPriorityClassName job) rl,
                             SuccessfulJobSchedulingContexts :=
                               (SuccessfulJobSchedulingContexts qctx)(jobId := None) \<rparr>
                     else
                       qctx\<lparr> QEvictedResourcesByPriorityClass :=
                               qt_AddV1ResourceList (QEvictedResourcesByPriorityClass qctx)
                                 (GetPriorityClassName job) rl,
                             EvictedJobsById := (EvictedJobsById qctx)(jobId \<mapsto> True) \<rparr>)
        in (Inr scheduledInThisRound,
            qctx1\<lparr> Allocated := rl_SubV1ResourceList (Allocated qctx1) rl,
                   AllocatedByPriorityClass :=
                     qt_SubV1ResourceList (AllocatedByPriorityClass qctx1)
                       (GetPriorityClassName job) rl \<rparr>))"

definition EvictJob ::
  "'k SchedulingContext \<Rightarrow> LegacySchedulerJob \<Rightarrow> (error + bool) \<times> 'k SchedulingContext" where
  "EvictJob sctx job =
     (case QueueSchedulingContexts sctx (GetQueue job) of
        None \<Rightarrow> (Inl NoContextForQueue, sctx)
      | Some qctx \<Rightarrow>
         (case QueueSchedulingContext_EvictJob qctx job of
            (res, qctx') \<Rightarrow>
              let sctx1 = sctx\<lparr>QueueSchedulingContexts :=
                            (QueueSchedulingContexts sctx)(GetQueue job \<mapsto> qctx')\<rparr>
              in (case res of
                    Inl err \<Rightarrow> (Inl err, sctx1)
                  | Inr scheduledInThisRound \<Rightarrow>
                     let rl = GetRequests job in
                     if scheduledInThisRound then
                       (Inr scheduledInThisRound, sctx1\<lparr>
                          ScheduledResources := rl_SubV1ResourceList (ScheduledResources sctx1) rl,
                          ScheduledResourcesByPriorityClass :=
                            qt_SubV1ResourceList (ScheduledResourcesByPriorityClass sctx1)
                              (GetPriorityClassName job) rl,
                          NumScheduledJobs := NumScheduledJobs sctx1 - 1 \<rparr>)
                     else
                       (Inr scheduledInThisRound, sctx1\<lparr>
                          EvictedResources := rl_AddV1ResourceList (EvictedResources sctx1) rl,
                          EvictedResourcesByPriorityClass :=
                            qt_AddV1ResourceList (EvictedResourcesByPriorityClass sctx1)
                              (GetPriorityClassName job) rl,
                          NumEvictedJobs := NumEvictedJobs sctx1 + 1 \<rparr>))))"

fun EvictGang_loop ::
  "'k SchedulingContext \<Rightarrow> LegacySchedulerJob list \<Rightarrow> bool
    \<Rightarrow> (error + bool) \<times> 'k SchedulingContext" where
  "EvictGang_loop sctx [] allJobsScheduledInThisRound = (Inr allJobsScheduledInThisRound, sctx)"
| "EvictGang_loop sctx (job # jobs) allJobsScheduledInThisRound =
     (case EvictJob sctx job of
        (Inl err, sctx') \<Rightarrow> (Inl err, sctx')
      | (Inr scheduledInThisRound, sctx') \<Rightarrow>
          EvictGang_loop sctx' jobs (allJobsScheduledInThisRound \<and> scheduledInThisRound))"

definition EvictGang ::
  "'k SchedulingContext \<Rightarrow> LegacySchedulerJob list \<Rightarrow> (error + bool) \<times> 'k SchedulingContext" where
  "EvictGang sctx jobs =
     (case EvictGang_loop sctx jobs True of
        (Inl err, sctx') \<Rightarrow> (Inl err, sctx')
      | (Inr allJobsScheduledInThisRound, sctx') \<Rightarrow>
          (Inr allJobsScheduledInThisRound,
           if allJobsScheduledInThisRound
           then sctx'\<lparr>NumScheduledGangs := NumScheduledGangs sctx' - 1\<rparr>
           else sctx'))"

subsection \<open>Reporting\<close>


subsection \<open>Recording a gang on a queue context\<close>

fun QueueSchedulingContext_AddGangSchedulingContext_loop ::
  "QueueSchedulingContext \<Rightarrow> JobSchedulingContext list
    \<Rightarrow> (error option \<times> QueueSchedulingContext) option" where
  "QueueSchedulingContext_AddGangSchedulingContext_loop qctx [] = Some (None, qctx)"
| "QueueSchedulingContext_AddGangSchedulingContext_loop qctx (jctx # jctxs) =
     (case QueueSchedulingContext_AddJobSchedulingContext qctx jctx of
        None \<Rightarrow> None
      | Some (Inl err, qctx') \<Rightarrow> Some (Some err, qctx')
      | Some (Inr evictedInThisRound, qctx') \<Rightarrow>
          QueueSchedulingContext_AddGangSchedulingContext_loop qctx' jctxs)"

definition QueueSchedulingContext_AddGangSchedulingContext ::
  "QueueSchedulingContext \<Rightarrow> GangSchedulingContext
    \<Rightarrow> (error option \<times> QueueSchedulingContext) option" where
  "QueueSchedulingContext_AddGangSchedulingContext qctx gctx =
     QueueSchedulingContext_AddGangSchedulingContext_loop qctx (JobSchedulingContexts gctx)"

section \<open>Sequences of public operations\<close>

text \<open>
  What a caller can do to a round: the exported mutators of the round, the exported
  mutators of a queue context (reached through the round's map, by queue name), and
  the cache of unfeasible keys. The caller sees the error of an operation and goes on
  with the round as the operation left it. A method called on the nil context of an
  unregistered queue panics, as does an operation that dereferences a nil job; a
  sequence with a panic has no final state.
\<close>

datatype 'k operation =
  OpAddQueueSchedulingContext string real "(string \<times> ResourceList) list option"
  | OpAddJobSchedulingContext JobSchedulingContext
  | OpAddGangSchedulingContext GangSchedulingContext
  | OpEvictJob LegacySchedulerJob
  | OpEvictGang "LegacySchedulerJob list"
  | OpQueueAddJobSchedulingContext string JobSchedulingContext
  | OpQueueAddGangSchedulingContext string GangSchedulingContext
  | OpQueueEvictJob string LegacySchedulerJob
  | OpAddUnfeasibleSchedulingKey 'k JobSchedulingContext
  | OpClearUnfeasibleSchedulingKeys

definition on_queue ::
  "'k SchedulingContext \<Rightarrow> string \<Rightarrow> (QueueSchedulingContext \<Rightarrow> QueueSchedulingContext option)
    \<Rightarrow> 'k SchedulingContext option" where
  "on_queue sctx queue f =
     (case QueueSchedulingContexts sctx queue of
        None \<Rightarrow> None
      | Some qctx \<Rightarrow>
         (case f qctx of
            None \<Rightarrow> None
          | Some qctx' \<Rightarrow>
             Some (sctx\<lparr>QueueSchedulingContexts :=
                          (QueueSchedulingContexts sctx)(queue \<mapsto> qctx')\<rparr>)))"

fun apply_operation :: "'k SchedulingContext \<Rightarrow> 'k operation \<Rightarrow> 'k SchedulingContext option" where
  "apply_operation sctx (OpAddQueueSchedulingContext queue weight initial) =
     Some (snd (AddQueueSchedulingContext sctx queue weight initial))"
| "apply_operation sctx (OpAddJobSchedulingContext jctx) =
     map_option snd (AddJobSchedulingContext sctx jctx)"
| "apply_operation sctx (OpAddGangSchedulingContext gctx) =
     map_option snd (AddGangSchedulingContext sctx gctx)"
| "apply_operation sctx (OpEvictJob job) = Some (snd (EvictJob sctx job))"
| "apply_operation sctx (OpEvictGang jobs) = Some (snd (EvictGang sctx jobs))"
| "apply_operation sctx (OpQueueAddJobSchedulingContext queue jctx) =
     on_queue sctx queue
       (\<lambda>qctx. map_option snd (QueueSchedulingContext_AddJobSchedulingContext qctx jctx))"
| "apply_operation sctx (OpQueueAddGangSchedulingContext queue gctx) =
     on_queue sctx queue
       (\<lambda>qctx. map_option snd (QueueSchedulingContext_AddGangSchedulingContext qctx gctx))"
| "apply_operation sctx (OpQueueEvictJob queue job) =
     on_queue sctx queue (\<lambda>qctx. Some (snd (QueueSchedulingContext_EvictJob qctx job)))"
| "apply_operation sctx (OpAddUnfeasibleSchedulingKey key jctx) =
     Some (AddUnfeasibleSchedulingKey sctx key jctx)"
| "apply_operation sctx OpClearUnfeasibleSchedulingKeys =
     Some (ClearUnfeasibleSchedulingKeys sctx)"

fun apply_operations ::
  "'k SchedulingContext \<Rightarrow> 'k operation list \<Rightarrow> 'k SchedulingContext option" where
  "apply_operations sctx [] = Some sctx"
| "apply_operations sctx (op # ops) =
     (case apply_operation sctx op of
        None \<Rightarrow> None
      | Some sctx' \<Rightarrow> apply_operations sctx' ops)"

text \<open>
  The entries handed over at a registration come from a Go map, so no class occurs
  twice among them.
\<close>

fun initial_entries_distinct :: "'k operation \<Rightarrow> bool" where
  "initial_entries_distinct (OpAddQueueSchedulingContext queue weight (Some entries)) =
     distinct (map fst entries)"
| "initial_entries_distinct opn = True"

section \<open>Notions used in the statements\<close>

text \<open>
  Whether a job id is in the evicted map of a queue of the round, whether the job of a
  job scheduling context is (``was pre-evicted''), and the pair of queue and job id
  under which a job scheduling context is filed.
\<close>

definition job_evicted :: "'k SchedulingContext \<Rightarrow> string \<Rightarrow> string \<Rightarrow> bool" where
  "job_evicted sctx queue jobId =
     (case QueueSchedulingContexts sctx queue of
        None \<Rightarrow> False
      | Some qctx \<Rightarrow> jobId \<in> dom (EvictedJobsById qctx))"

definition pre_evicted :: "'k SchedulingContext \<Rightarrow> JobSchedulingContext \<Rightarrow> bool" where
  "pre_evicted sctx jctx =
     (case Job jctx of
        None \<Rightarrow> False
      | Some job \<Rightarrow> job_evicted sctx (GetQueue job) (JobId jctx))"

definition decision_key :: "JobSchedulingContext \<Rightarrow> string option \<times> string" where
  "decision_key jctx = (map_option GetQueue (Job jctx), JobId jctx)"

text \<open>
  A property of every queue context of a round, and the entries of the initial
  allocation handed over at a registration (none for nil).
\<close>

definition all_queues :: "(QueueSchedulingContext \<Rightarrow> bool) \<Rightarrow> 'k SchedulingContext \<Rightarrow> bool" where
  "all_queues P sctx = (\<forall>queue qctx. QueueSchedulingContexts sctx queue = Some qctx \<longrightarrow> P qctx)"

definition entries_of :: "(string \<times> ResourceList) list option \<Rightarrow> (string \<times> ResourceList) list" where
  "entries_of initial = (case initial of None \<Rightarrow> [] | Some es \<Rightarrow> es)"

text \<open>The keys that the callers' insertions of a sequence put into the cache.\<close>

fun added_keys :: "'k operation list \<Rightarrow> 'k set" where
  "added_keys [] = {}"
| "added_keys (OpAddUnfeasibleSchedulingKey key jctx # ops) = insert key (added_keys ops)"
| "added_keys (opn # ops) = added_keys ops"

section \<open>Example round\<close>

text \<open>
  The round, queues and jobs of the end-to-end scenarios: a round with total capacity
  \<open>{cpu: 10, memory: 100}\<close>, queue \<open>A\<close> of weight 1 without initial allocation, queue
  \<open>B\<close> of weight 2 with \<open>{cpu: 5, memory: 50}\<close> allocated in class \<open>p1\<close>, job \<open>j1\<close>
  of queue \<open>A\<close> asking for \<open>{cpu: 2, memory: 20}\<close>, job \<open>j2\<close> of queue \<open>B\<close> asking
  for \<open>{cpu: 5, memory: 50}\<close>, and job \<open>j3\<close> of a queue \<open>C\<close> that is never
  registered. The example key generator returns what it is given. The later
  definitions name the states that the scenarios reach.
\<close>

type_synonym SchedulingKeyFields =
  "(string \<rightharpoonup> string) \<times> Affinity option \<times> Toleration list \<times> v1ResourceList \<times> 32 word"

definition ex_Key ::
  "(string \<rightharpoonup> string) \<Rightarrow> Affinity option \<Rightarrow> Toleration list \<Rightarrow> v1ResourceList \<Rightarrow> 32 word
    \<Rightarrow> SchedulingKeyFields" where
  "ex_Key nodeSelector affinity tolerations requests priority =
     (nodeSelector, affinity, tolerations, requests, priority)"

definition ex_job1 :: LegacySchedulerJob where
  "ex_job1 = \<lparr> GetId = ''j1'', GetQueue = ''A'', GetPriorityClassName = ''p1'',
               GetRequests = [''cpu'' \<mapsto> 2, ''memory'' \<mapsto> 20],
               GetNodeSelector = Map.empty, GetAffinity = None, GetTolerations = [] \<rparr>"

definition ex_jctx1 :: JobSchedulingContext where
  "ex_jctx1 = \<lparr> JobId = ''j1'', Job = Some ex_job1,
                PodRequirements = Some \<lparr> Requests = [''cpu'' \<mapsto> 2, ''memory'' \<mapsto> 20] \<rparr>,
                UnschedulableReason = [] \<rparr>"

definition ex_jctx1_failed :: JobSchedulingContext where
  "ex_jctx1_failed = ex_jctx1\<lparr>UnschedulableReason := ''no node fits''\<rparr>"

definition ex_job2 :: LegacySchedulerJob where
  "ex_job2 = \<lparr> GetId = ''j2'', GetQueue = ''B'', GetPriorityClassName = ''p1'',
               GetRequests = [''cpu'' \<mapsto> 5, ''memory'' \<mapsto> 50],
               GetNodeSelector = Map.empty, GetAffinity = None, GetTolerations = [] \<rparr>"

definition ex_jctx2 :: JobSchedulingContext where
  "ex_jctx2 = \<lparr> JobId = ''j2'', Job = Some ex_job2,
                PodRequirements = Some \<lparr> Requests = [''cpu'' \<mapsto> 5, ''memory'' \<mapsto> 50] \<rparr>,
                UnschedulableReason = [] \<rparr>"

definition ex_round :: "SchedulingKeyFields SchedulingContext" where
  "ex_round = NewSchedulingContext ''executor'' ''pool'' Map.empty ''p1''
                [''cpu'' \<mapsto> 10, ''memory'' \<mapsto> 100]"

definition ex_roundA :: "SchedulingKeyFields SchedulingContext" where
  "ex_roundA = snd (AddQueueSchedulingContext ex_round ''A'' 1 None)"

definition ex_roundAB :: "SchedulingKeyFields SchedulingContext" where
  "ex_roundAB = snd (AddQueueSchedulingContext ex_roundA ''B'' 2
                       (Some [(''p1'', [''cpu'' \<mapsto> 5, ''memory'' \<mapsto> 50])]))"

definition ex_queueA :: QueueSchedulingContext where
  "ex_queueA = \<lparr> QExecutorId = ''executor'', Queue = ''A'', Weight = 1,
                 Allocated = Map.empty,
                 AllocatedByPriorityClass = Map.empty,
                 QScheduledResourcesByPriorityClass = Map.empty,
                 QEvictedResourcesByPriorityClass = Map.empty,
                 SuccessfulJobSchedulingContexts = Map.empty,
                 UnsuccessfulJobSchedulingContexts = Map.empty,
                 EvictedJobsById = Map.empty \<rparr>"

definition ex_queueB :: QueueSchedulingContext where
  "ex_queueB = \<lparr> QExecutorId = ''executor'', Queue = ''B'', Weight = 2,
                 Allocated = [''cpu'' \<mapsto> 5, ''memory'' \<mapsto> 50],
                 AllocatedByPriorityClass = [''p1'' \<mapsto> [''cpu'' \<mapsto> 5, ''memory'' \<mapsto> 50]],
                 QScheduledResourcesByPriorityClass = Map.empty,
                 QEvictedResourcesByPriorityClass = Map.empty,
                 SuccessfulJobSchedulingContexts = Map.empty,
                 UnsuccessfulJobSchedulingContexts = Map.empty,
                 EvictedJobsById = Map.empty \<rparr>"

definition ex_job3 :: LegacySchedulerJob where
  "ex_job3 = \<lparr> GetId = ''j3'', GetQueue = ''C'', GetPriorityClassName = ''p1'',
               GetRequests = [''cpu'' \<mapsto> 1, ''memory'' \<mapsto> 10],
               GetNodeSelector = Map.empty, GetAffinity = None, GetTolerations = [] \<rparr>"

definition ex_jctx3 :: JobSchedulingContext where
  "ex_jctx3 = \<lparr> JobId = ''j3'', Job = Some ex_job3,
                PodRequirements = Some \<lparr> Requests = [''cpu'' \<mapsto> 1, ''memory'' \<mapsto> 10] \<rparr>,
                UnschedulableReason = [] \<rparr>"

definition ex_gang :: "JobSchedulingContext list \<Rightarrow> GangSchedulingContext" where
  "ex_gang jctxs = \<lparr> GangQueue = ''A'', PriorityClassName = ''p1'',
                     JobSchedulingContexts = jctxs, TotalResourceRequests = Map.empty,
                     AllJobsEvicted = False, NodeUniformityLabel = [] \<rparr>"

definition ex_roundA_j1 :: "SchedulingKeyFields SchedulingContext" where
  "ex_roundA_j1 = (case AddJobSchedulingContext ex_roundA ex_jctx1 of
                     None \<Rightarrow> ex_roundA | Some (res, sctx') \<Rightarrow> sctx')"

definition ex_roundAB_evicted :: "SchedulingKeyFields SchedulingContext" where
  "ex_roundAB_evicted = snd (EvictJob ex_roundAB ex_job2)"

definition ex_queueA_j1 :: QueueSchedulingContext where
  "ex_queueA_j1 = ex_queueA\<lparr>
       Allocated := [''cpu'' \<mapsto> 2, ''memory'' \<mapsto> 20],
       AllocatedByPriorityClass := [''p1'' \<mapsto> [''cpu'' \<mapsto> 2, ''memory'' \<mapsto> 20]],
       SuccessfulJobSchedulingContexts := [''j1'' \<mapsto> ex_jctx1],
       QScheduledResourcesByPriorityClass := [''p1'' \<mapsto> [''cpu'' \<mapsto> 2, ''memory'' \<mapsto> 20]]\<rparr>"

definition ex_queueB_evicted :: QueueSchedulingContext where
  "ex_queueB_evicted = ex_queueB\<lparr>
       Allocated := [''cpu'' \<mapsto> 0, ''memory'' \<mapsto> 0],
       AllocatedByPriorityClass := [''p1'' \<mapsto> [''cpu'' \<mapsto> 0, ''memory'' \<mapsto> 0]],
       QEvictedResourcesByPriorityClass := [''p1'' \<mapsto> [''cpu'' \<mapsto> 5, ''memory'' \<mapsto> 50]],
       EvictedJobsById := [''j2'' \<mapsto> True]\<rparr>"

section \<open>Arithmetic of the resource containers\<close>

lemma rl_Get_AddV1ResourceList:
  "rl_Get (rl_AddV1ResourceList a b) t = rl_Get a t + rl_Get b t"
  by (simp add: rl_Get_def rl_AddV1ResourceList_def split: option.splits)

lemma rl_Get_SubV1ResourceList:
  "rl_Get (rl_SubV1ResourceList a b) t = rl_Get a t - rl_Get b t"
  by (simp add: rl_Get_def rl_SubV1ResourceList_def split: option.splits)

lemma rl_Get_Add:
  "rl_Get (rl_Add a b) t = rl_Get a t + rl_Get b t"
  by (simp add: rl_Get_def rl_Add_def split: option.splits)

lemma qt_Get_AddV1ResourceList:
  "qt_Get (qt_AddV1ResourceList a p b) p' t
     = qt_Get a p' t + (if p' = p then rl_Get b t else 0)"
  by (simp add: qt_Get_def qt_AddV1ResourceList_def qt_index_def rl_Get_AddV1ResourceList)

lemma qt_Get_SubV1ResourceList:
  "qt_Get (qt_SubV1ResourceList a p b) p' t
     = qt_Get a p' t - (if p' = p then rl_Get b t else 0)"
  by (simp add: qt_Get_def qt_SubV1ResourceList_def qt_index_def rl_Get_SubV1ResourceList)

section \<open>The example round, evaluated\<close>

lemma ex_roundA_fields:
  "QueueSchedulingContexts ex_roundA = [''A'' \<mapsto> ex_queueA]"
  "ScheduledResources ex_roundA = Map.empty"
  "ScheduledResourcesByPriorityClass ex_roundA = Map.empty"
  "EvictedResources ex_roundA = Map.empty"
  "EvictedResourcesByPriorityClass ex_roundA = Map.empty"
  "NumScheduledJobs ex_roundA = 0"
  "NumScheduledGangs ex_roundA = 0"
  "NumEvictedJobs ex_roundA = 0"
  "UnfeasibleSchedulingKeys ex_roundA = Map.empty"
  "PriorityClasses ex_roundA = Map.empty"
  by (simp_all add: ex_roundA_def ex_round_def ex_queueA_def AddQueueSchedulingContext_def
      NewSchedulingContext_def qt_DeepCopy_def Let_def)

lemma ex_roundAB_fields:
  "QueueSchedulingContexts ex_roundAB = [''A'' \<mapsto> ex_queueA, ''B'' \<mapsto> ex_queueB]"
  "ScheduledResources ex_roundAB = Map.empty"
  "ScheduledResourcesByPriorityClass ex_roundAB = Map.empty"
  "EvictedResources ex_roundAB = Map.empty"
  "EvictedResourcesByPriorityClass ex_roundAB = Map.empty"
  "NumScheduledJobs ex_roundAB = 0"
  "NumScheduledGangs ex_roundAB = 0"
  "NumEvictedJobs ex_roundAB = 0"
  by (auto simp: ex_roundAB_def ex_roundA_def ex_round_def ex_queueA_def ex_queueB_def
      AddQueueSchedulingContext_def NewSchedulingContext_def qt_DeepCopy_def rl_Add_def
      rl_Get_def Let_def fun_eq_iff)

lemma ex_roundA_j1_fields:
  "AddJobSchedulingContext ex_roundA ex_jctx1 = Some (Inr False, ex_roundA_j1)"
  "QueueSchedulingContexts ex_roundA_j1 = [''A'' \<mapsto> ex_queueA_j1]"
  "NumScheduledJobs ex_roundA_j1 = 1"
  "UnfeasibleSchedulingKeys ex_roundA_j1 = Map.empty"
  by (auto simp: ex_roundA_j1_def ex_queueA_j1_def
      AddJobSchedulingContext_def QueueSchedulingContext_AddJobSchedulingContext_def
      ex_roundA_fields ex_jctx1_def ex_job1_def ex_queueA_def IsSuccessful_def Let_def
      qt_AddV1ResourceList_def rl_AddV1ResourceList_def qt_index_def rl_Get_def fun_eq_iff)

section \<open>Recording and evicting one job\<close>

text \<open>
  Claim C5. A successful job scheduling context with pod requirements (and a job),
  whose id is in neither the successful nor the unsuccessful map of the queue context,
  is accepted; the result is whether the id was in the evicted map at entry. The
  requests are added to \<open>Allocated\<close> and to the entry of the job's class in
  \<open>AllocatedByPriorityClass\<close> in every case. If the id was evicted, it is deleted
  from the evicted map and the requests are subtracted from the class entry of the
  evicted resources, while the successful map and the scheduled resources stay as
  they were; otherwise the context is stored in the successful map and the requests
  are added to the class entry of the scheduled resources, while the evicted map and
  the evicted resources stay as they were. Quantities are compared resource by
  resource, a missing entry counting as zero.
\<close>

theorem queue_add_successful:
  assumes "IsSuccessful jctx"
    and "PodRequirements jctx = Some req"
    and "Job jctx = Some job"
    and "JobId jctx \<notin> dom (SuccessfulJobSchedulingContexts qctx)"
    and "JobId jctx \<notin> dom (UnsuccessfulJobSchedulingContexts qctx)"
  shows "\<exists>qctx'.
      QueueSchedulingContext_AddJobSchedulingContext qctx jctx
        = Some (Inr (JobId jctx \<in> dom (EvictedJobsById qctx)), qctx')
      \<and> (\<forall>t. rl_Get (Allocated qctx') t = rl_Get (Allocated qctx) t + rl_Get (Requests req) t)
      \<and> (\<forall>p t. qt_Get (AllocatedByPriorityClass qctx') p t
             = qt_Get (AllocatedByPriorityClass qctx) p t
               + (if p = GetPriorityClassName job then rl_Get (Requests req) t else 0))
      \<and> UnsuccessfulJobSchedulingContexts qctx' = UnsuccessfulJobSchedulingContexts qctx
      \<and> (if JobId jctx \<in> dom (EvictedJobsById qctx)
         then EvictedJobsById qctx' = (EvictedJobsById qctx)(JobId jctx := None)
            \<and> (\<forall>p t. qt_Get (QEvictedResourcesByPriorityClass qctx') p t
                 = qt_Get (QEvictedResourcesByPriorityClass qctx) p t
                   - (if p = GetPriorityClassName job then rl_Get (Requests req) t else 0))
            \<and> SuccessfulJobSchedulingContexts qctx' = SuccessfulJobSchedulingContexts qctx
            \<and> QScheduledResourcesByPriorityClass qctx' = QScheduledResourcesByPriorityClass qctx
         else SuccessfulJobSchedulingContexts qctx'
                = (SuccessfulJobSchedulingContexts qctx)(JobId jctx \<mapsto> jctx)
            \<and> (\<forall>p t. qt_Get (QScheduledResourcesByPriorityClass qctx') p t
                 = qt_Get (QScheduledResourcesByPriorityClass qctx) p t
                   + (if p = GetPriorityClassName job then rl_Get (Requests req) t else 0))
            \<and> EvictedJobsById qctx' = EvictedJobsById qctx
            \<and> QEvictedResourcesByPriorityClass qctx' = QEvictedResourcesByPriorityClass qctx)"
  using assms
  by (simp add: QueueSchedulingContext_AddJobSchedulingContext_def Let_def
      rl_Get_AddV1ResourceList qt_Get_AddV1ResourceList qt_Get_SubV1ResourceList)

theorem queue_add_successful_witness:
  "\<exists>qctx'. QueueSchedulingContext_AddJobSchedulingContext ex_queueA ex_jctx1
              = Some (Inr False, qctx')
     \<and> rl_Get (Allocated qctx') ''cpu'' = 2
     \<and> qt_Get (AllocatedByPriorityClass qctx') ''p1'' ''memory'' = 20
     \<and> qt_Get (QScheduledResourcesByPriorityClass qctx') ''p1'' ''cpu'' = 2
     \<and> SuccessfulJobSchedulingContexts qctx' = [''j1'' \<mapsto> ex_jctx1]
     \<and> EvictedJobsById qctx' = Map.empty"
proof -
  have h: "IsSuccessful ex_jctx1"
    "PodRequirements ex_jctx1 = Some \<lparr>Requests = [''cpu'' \<mapsto> 2, ''memory'' \<mapsto> 20]\<rparr>"
    "Job ex_jctx1 = Some ex_job1"
    "JobId ex_jctx1 \<notin> dom (SuccessfulJobSchedulingContexts ex_queueA)"
    "JobId ex_jctx1 \<notin> dom (UnsuccessfulJobSchedulingContexts ex_queueA)"
    by (simp_all add: IsSuccessful_def ex_jctx1_def ex_queueA_def)
  have e: "JobId ex_jctx1 \<notin> dom (EvictedJobsById ex_queueA)" "JobId ex_jctx1 = ''j1''"
    "GetPriorityClassName ex_job1 = ''p1''"
    by (simp_all add: ex_jctx1_def ex_queueA_def ex_job1_def)
  from queue_add_successful [OF h] e show ?thesis
    by (auto simp: ex_queueA_def rl_Get_def qt_Get_def qt_index_def)
qed

text \<open>
  Claim C6. With the queue of the job registered, evicting the job from the round
  gives what evicting it from its queue context gives, and fails exactly if its id is
  in the unsuccessful map or in the evicted map of the queue context.
  Otherwise the result is whether the id was in the successful map; the requests are
  subtracted from \<open>Allocated\<close> and from the class entry of
  \<open>AllocatedByPriorityClass\<close> in both branches. If the job was scheduled in this
  round, its id leaves the successful map, the requests are subtracted from the
  queue's and the round's scheduled resources and \<open>NumScheduledJobs\<close> goes down by
  one; if not, the id enters the evicted map, the requests are added to the queue's
  and the round's evicted resources and \<open>NumEvictedJobs\<close> goes up by one.
\<close>

theorem evict_job_effect:
  assumes "QueueSchedulingContexts sctx (GetQueue job) = Some qctx"
  shows "\<exists>res sctx' qctx'.
      EvictJob sctx job = (res, sctx')
      \<and> QueueSchedulingContexts sctx' (GetQueue job) = Some qctx'
      \<and> QueueSchedulingContext_EvictJob qctx job = (res, qctx')
      \<and> (isl res \<longleftrightarrow> GetId job \<in> dom (UnsuccessfulJobSchedulingContexts qctx)
                        \<or> GetId job \<in> dom (EvictedJobsById qctx))
      \<and> (isl res \<or>
          res = Inr (GetId job \<in> dom (SuccessfulJobSchedulingContexts qctx))
          \<and> (\<forall>t. rl_Get (Allocated qctx') t
                 = rl_Get (Allocated qctx) t - rl_Get (GetRequests job) t)
          \<and> (\<forall>p t. qt_Get (AllocatedByPriorityClass qctx') p t
                 = qt_Get (AllocatedByPriorityClass qctx) p t
                   - (if p = GetPriorityClassName job then rl_Get (GetRequests job) t else 0))
          \<and> (if GetId job \<in> dom (SuccessfulJobSchedulingContexts qctx)
             then SuccessfulJobSchedulingContexts qctx'
                    = (SuccessfulJobSchedulingContexts qctx)(GetId job := None)
                \<and> EvictedJobsById qctx' = EvictedJobsById qctx
                \<and> (\<forall>p t. qt_Get (QScheduledResourcesByPriorityClass qctx') p t
                      = qt_Get (QScheduledResourcesByPriorityClass qctx) p t
                        - (if p = GetPriorityClassName job then rl_Get (GetRequests job) t else 0))
                \<and> QEvictedResourcesByPriorityClass qctx' = QEvictedResourcesByPriorityClass qctx
                \<and> (\<forall>t. rl_Get (ScheduledResources sctx') t
                      = rl_Get (ScheduledResources sctx) t - rl_Get (GetRequests job) t)
                \<and> (\<forall>p t. qt_Get (ScheduledResourcesByPriorityClass sctx') p t
                      = qt_Get (ScheduledResourcesByPriorityClass sctx) p t
                        - (if p = GetPriorityClassName job then rl_Get (GetRequests job) t else 0))
                \<and> NumScheduledJobs sctx' = NumScheduledJobs sctx - 1
                \<and> EvictedResources sctx' = EvictedResources sctx
                \<and> EvictedResourcesByPriorityClass sctx' = EvictedResourcesByPriorityClass sctx
                \<and> NumEvictedJobs sctx' = NumEvictedJobs sctx
             else EvictedJobsById qctx' = (EvictedJobsById qctx)(GetId job \<mapsto> True)
                \<and> SuccessfulJobSchedulingContexts qctx' = SuccessfulJobSchedulingContexts qctx
                \<and> (\<forall>p t. qt_Get (QEvictedResourcesByPriorityClass qctx') p t
                      = qt_Get (QEvictedResourcesByPriorityClass qctx) p t
                        + (if p = GetPriorityClassName job then rl_Get (GetRequests job) t else 0))
                \<and> QScheduledResourcesByPriorityClass qctx' = QScheduledResourcesByPriorityClass qctx
                \<and> (\<forall>t. rl_Get (EvictedResources sctx') t
                      = rl_Get (EvictedResources sctx) t + rl_Get (GetRequests job) t)
                \<and> (\<forall>p t. qt_Get (EvictedResourcesByPriorityClass sctx') p t
                      = qt_Get (EvictedResourcesByPriorityClass sctx) p t
                        + (if p = GetPriorityClassName job then rl_Get (GetRequests job) t else 0))
                \<and> NumEvictedJobs sctx' = NumEvictedJobs sctx + 1
                \<and> ScheduledResources sctx' = ScheduledResources sctx
                \<and> ScheduledResourcesByPriorityClass sctx' = ScheduledResourcesByPriorityClass sctx
                \<and> NumScheduledJobs sctx' = NumScheduledJobs sctx))"
  using assms
  by (simp add: EvictJob_def QueueSchedulingContext_EvictJob_def Let_def
      rl_Get_AddV1ResourceList rl_Get_SubV1ResourceList
      qt_Get_AddV1ResourceList qt_Get_SubV1ResourceList)

theorem evict_job_effect_witness:
  "\<exists>sctx' qctx'. EvictJob ex_roundAB ex_job2 = (Inr False, sctx')
     \<and> QueueSchedulingContexts sctx' ''B'' = Some qctx'
     \<and> EvictedJobsById qctx' = [''j2'' \<mapsto> True]
     \<and> rl_Get (Allocated qctx') ''cpu'' = 0
     \<and> rl_Get (EvictedResources sctx') ''memory'' = 50
     \<and> NumEvictedJobs sctx' = 1"
proof -
  have q: "QueueSchedulingContexts ex_roundAB (GetQueue ex_job2) = Some ex_queueB"
    by (simp add: ex_roundAB_fields ex_job2_def)
  from evict_job_effect [OF q] obtain res sctx' qctx' where
    r: "EvictJob ex_roundAB ex_job2 = (res, sctx')"
      "QueueSchedulingContexts sctx' (GetQueue ex_job2) = Some qctx'"
      "isl res \<longleftrightarrow> GetId ex_job2 \<in> dom (UnsuccessfulJobSchedulingContexts ex_queueB)
                        \<or> GetId ex_job2 \<in> dom (EvictedJobsById ex_queueB)"
    and s: "isl res \<or>
          res = Inr (GetId ex_job2 \<in> dom (SuccessfulJobSchedulingContexts ex_queueB))
          \<and> (\<forall>t. rl_Get (Allocated qctx') t
                 = rl_Get (Allocated ex_queueB) t - rl_Get (GetRequests ex_job2) t)
          \<and> (GetId ex_job2 \<notin> dom (SuccessfulJobSchedulingContexts ex_queueB) \<longrightarrow>
               EvictedJobsById qctx' = (EvictedJobsById ex_queueB)(GetId ex_job2 \<mapsto> True)
               \<and> (\<forall>t. rl_Get (EvictedResources sctx') t
                      = rl_Get (EvictedResources ex_roundAB) t + rl_Get (GetRequests ex_job2) t)
               \<and> NumEvictedJobs sctx' = NumEvictedJobs ex_roundAB + 1)"
    by (auto split: if_splits)
  from r(3) have n: "\<not> isl res" by (simp add: ex_queueB_def)
  with s r(1,2) show ?thesis
    by (simp add: ex_roundAB_fields ex_queueB_def ex_job2_def rl_Get_def)
qed

text \<open>
  Claim C1. Let the queue of job \<open>j\<close> be registered, let \<open>j\<close> be in none of the three
  maps of its queue context, and let a successful job scheduling context for \<open>j\<close>
  carry the same requests as the job. Then evicting \<open>j\<close> puts it into the evicted
  map, recording the context afterwards is accepted and reports the job as evicted in
  this round, and the two steps cancel: the round's scheduled and evicted resources
  and its two job counters, the class entries of the queue's scheduled and evicted
  resources, and the queue's \<open>Allocated\<close> and \<open>AllocatedByPriorityClass\<close> all have
  their values from before the eviction (resource by resource, a missing entry
  counting as zero: the maps themselves may have gained entries of quantity zero).
\<close>

theorem evict_then_schedule_cancels:
  assumes queue: "QueueSchedulingContexts sctx (GetQueue job) = Some qctx"
    and jctx: "Job jctx = Some job" "JobId jctx = GetId job" "IsSuccessful jctx"
    and req: "PodRequirements jctx = Some req" "Requests req = GetRequests job"
    and fresh: "GetId job \<notin> dom (SuccessfulJobSchedulingContexts qctx)"
      "GetId job \<notin> dom (UnsuccessfulJobSchedulingContexts qctx)"
      "GetId job \<notin> dom (EvictedJobsById qctx)"
  shows "\<exists>sctx1 qctx1 sctx2 qctx2.
      EvictJob sctx job = (Inr False, sctx1)
      \<and> QueueSchedulingContexts sctx1 (GetQueue job) = Some qctx1
      \<and> GetId job \<in> dom (EvictedJobsById qctx1)
      \<and> AddJobSchedulingContext sctx1 jctx = Some (Inr True, sctx2)
      \<and> QueueSchedulingContexts sctx2 (GetQueue job) = Some qctx2
      \<and> ScheduledResources sctx2 = ScheduledResources sctx
      \<and> (\<forall>t. rl_Get (EvictedResources sctx2) t = rl_Get (EvictedResources sctx) t)
      \<and> NumScheduledJobs sctx2 = NumScheduledJobs sctx
      \<and> NumEvictedJobs sctx2 = NumEvictedJobs sctx
      \<and> QScheduledResourcesByPriorityClass qctx2 = QScheduledResourcesByPriorityClass qctx
      \<and> (\<forall>p t. qt_Get (QEvictedResourcesByPriorityClass qctx2) p t
               = qt_Get (QEvictedResourcesByPriorityClass qctx) p t)
      \<and> (\<forall>t. rl_Get (Allocated qctx2) t = rl_Get (Allocated qctx) t)
      \<and> (\<forall>p t. qt_Get (AllocatedByPriorityClass qctx2) p t
               = qt_Get (AllocatedByPriorityClass qctx) p t)
      \<and> ScheduledResourcesByPriorityClass sctx2 = ScheduledResourcesByPriorityClass sctx
      \<and> (\<forall>p t. qt_Get (EvictedResourcesByPriorityClass sctx2) p t
               = qt_Get (EvictedResourcesByPriorityClass sctx) p t)
      \<and> EvictedJobsById qctx2 = EvictedJobsById qctx
      \<and> SuccessfulJobSchedulingContexts qctx2 = SuccessfulJobSchedulingContexts qctx
      \<and> UnsuccessfulJobSchedulingContexts qctx2 = UnsuccessfulJobSchedulingContexts qctx"
proof -
  have none: "EvictedJobsById qctx (GetId job) = None"
    using fresh(3) by (simp add: domIff)
  show ?thesis
    using assms none
    by (simp add: EvictJob_def QueueSchedulingContext_EvictJob_def
        AddJobSchedulingContext_def QueueSchedulingContext_AddJobSchedulingContext_def Let_def
        rl_Get_AddV1ResourceList rl_Get_SubV1ResourceList
        qt_Get_AddV1ResourceList qt_Get_SubV1ResourceList fun_upd_idem)
qed

theorem evict_then_schedule_cancels_witness:
  "\<exists>sctx1 sctx2 qctx2.
      EvictJob ex_roundAB ex_job2 = (Inr False, sctx1)
      \<and> AddJobSchedulingContext sctx1 ex_jctx2 = Some (Inr True, sctx2)
      \<and> QueueSchedulingContexts sctx2 ''B'' = Some qctx2
      \<and> rl_Get (Allocated qctx2) ''cpu'' = 5
      \<and> rl_Get (Allocated qctx2) ''memory'' = 50
      \<and> EvictedJobsById qctx2 = Map.empty
      \<and> rl_Get (EvictedResources sctx2) ''cpu'' = 0
      \<and> ScheduledResources sctx2 = Map.empty
      \<and> NumScheduledJobs sctx2 = 0
      \<and> NumEvictedJobs sctx2 = 0"
proof -
  have h: "QueueSchedulingContexts ex_roundAB (GetQueue ex_job2) = Some ex_queueB"
    "Job ex_jctx2 = Some ex_job2" "JobId ex_jctx2 = GetId ex_job2" "IsSuccessful ex_jctx2"
    "PodRequirements ex_jctx2 = Some \<lparr>Requests = [''cpu'' \<mapsto> 5, ''memory'' \<mapsto> 50]\<rparr>"
    "Requests \<lparr>Requests = [''cpu'' \<mapsto> 5, ''memory'' \<mapsto> 50]\<rparr> = GetRequests ex_job2"
    "GetId ex_job2 \<notin> dom (SuccessfulJobSchedulingContexts ex_queueB)"
    "GetId ex_job2 \<notin> dom (UnsuccessfulJobSchedulingContexts ex_queueB)"
    "GetId ex_job2 \<notin> dom (EvictedJobsById ex_queueB)"
    by (simp_all add: ex_roundAB_fields ex_job2_def ex_jctx2_def ex_queueB_def IsSuccessful_def)
  have g: "GetQueue ex_job2 = ''B''" by (simp add: ex_job2_def)
  from evict_then_schedule_cancels [OF h] show ?thesis
    unfolding g by (auto simp: ex_roundAB_fields ex_queueB_def rl_Get_def)
qed

section \<open>Gangs without members\<close>

text \<open>
  Claim C10. \<^verbatim>\<open>EvictGang\<close> on the empty list of jobs returns true and takes one off
  \<open>NumScheduledGangs\<close>, leaving every other field of the round as it was; recording a
  gang scheduling context without job scheduling contexts returns true for ``all jobs
  evicted in this round'' and leaves the round, \<open>NumScheduledGangs\<close> included, as it
  was.
\<close>

theorem empty_gang:
  "EvictGang sctx [] = (Inr True, sctx\<lparr>NumScheduledGangs := NumScheduledGangs sctx - 1\<rparr>)
   \<and> AddGangSchedulingContext sctx (gctx\<lparr>JobSchedulingContexts := []\<rparr>) = Some (Inr True, sctx)"
  by (simp add: EvictGang_def AddGangSchedulingContext_def)

section \<open>Operations that return an error\<close>

lemma QueueSchedulingContext_AddJobSchedulingContext_error:
  "QueueSchedulingContext_AddJobSchedulingContext qctx jctx = Some (Inl err, qctx')
    \<Longrightarrow> qctx' = qctx"
  by (auto simp: QueueSchedulingContext_AddJobSchedulingContext_def Let_def
      split: if_splits option.splits)

lemma QueueSchedulingContext_EvictJob_error:
  "QueueSchedulingContext_EvictJob qctx job = (Inl err, qctx') \<Longrightarrow> qctx' = qctx"
  by (auto simp: QueueSchedulingContext_EvictJob_def Let_def split: if_splits)

lemma AddJobSchedulingContext_error:
  assumes "AddJobSchedulingContext sctx jctx = Some (Inl err, sctx')"
  shows "sctx' = sctx"
proof -
  from assms obtain job where job: "Job jctx = Some job"
    by (auto simp: AddJobSchedulingContext_def split: option.splits)
  show ?thesis
  proof (cases "QueueSchedulingContexts sctx (GetQueue job)")
    case None
    with assms job show ?thesis by (simp add: AddJobSchedulingContext_def)
  next
    case (Some qctx)
    with assms job obtain res qctx' where
      q: "QueueSchedulingContext_AddJobSchedulingContext qctx jctx = Some (res, qctx')"
      by (auto simp: AddJobSchedulingContext_def split: option.splits)
    with assms job Some have res: "\<exists>e. res = Inl e"
      by (auto simp: AddJobSchedulingContext_def Let_def split: sum.splits option.splits if_splits)
    with q have "qctx' = qctx"
      by (auto dest: QueueSchedulingContext_AddJobSchedulingContext_error)
    with assms job Some q res show ?thesis
      by (auto simp: AddJobSchedulingContext_def Let_def map_upd_triv)
  qed
qed

lemma EvictJob_error:
  assumes "EvictJob sctx job = (Inl err, sctx')"
  shows "sctx' = sctx"
proof (cases "QueueSchedulingContexts sctx (GetQueue job)")
  case None
  with assms show ?thesis by (simp add: EvictJob_def)
next
  case (Some qctx)
  obtain res qctx' where q: "QueueSchedulingContext_EvictJob qctx job = (res, qctx')"
    by (cases "QueueSchedulingContext_EvictJob qctx job")
  with assms Some have res: "\<exists>e. res = Inl e"
    by (auto simp: EvictJob_def Let_def split: sum.splits if_splits)
  with q have "qctx' = qctx"
    by (auto dest: QueueSchedulingContext_EvictJob_error)
  with assms Some q res show ?thesis
    by (auto simp: EvictJob_def Let_def map_upd_triv)
qed

lemma AddGangSchedulingContext_loop_error:
  "AddGangSchedulingContext_loop sctx jctxs ev succ = Some (Inl err, sctx')
    \<Longrightarrow> \<exists>n < length jctxs. \<exists>flags.
          AddGangSchedulingContext_loop sctx (take n jctxs) ev succ = Some (Inr flags, sctx')
          \<and> AddJobSchedulingContext sctx' (jctxs ! n) = Some (Inl err, sctx')"
proof (induction jctxs arbitrary: sctx ev succ)
  case Nil
  then show ?case by simp
next
  case (Cons jctx jctxs)
  from Cons.prems obtain res sctx1 where
    step: "AddJobSchedulingContext sctx jctx = Some (res, sctx1)"
    by (auto split: option.splits)
  show ?case
  proof (cases res)
    case (Inl e)
    with step Cons.prems have "e = err" "sctx1 = sctx'" by simp_all
    moreover from step Inl have "sctx1 = sctx" by (auto dest: AddJobSchedulingContext_error)
    ultimately have "AddGangSchedulingContext_loop sctx (take 0 (jctx # jctxs)) ev succ
                        = Some (Inr (ev, succ), sctx')
        \<and> AddJobSchedulingContext sctx' ((jctx # jctxs) ! 0) = Some (Inl err, sctx')"
      using step Inl by simp
    then show ?thesis by blast
  next
    case (Inr e1)
    with step Cons.prems have
      "AddGangSchedulingContext_loop sctx1 jctxs (ev \<and> e1) (succ \<and> IsSuccessful jctx)
         = Some (Inl err, sctx')"
      by simp
    from Cons.IH [OF this] obtain n flags where
      n: "n < length jctxs"
        "AddGangSchedulingContext_loop sctx1 (take n jctxs) (ev \<and> e1) (succ \<and> IsSuccessful jctx)
           = Some (Inr flags, sctx')"
        "AddJobSchedulingContext sctx' (jctxs ! n) = Some (Inl err, sctx')"
      by blast
    with step Inr have "Suc n < length (jctx # jctxs)
        \<and> AddGangSchedulingContext_loop sctx (take (Suc n) (jctx # jctxs)) ev succ
            = Some (Inr flags, sctx')
        \<and> AddJobSchedulingContext sctx' ((jctx # jctxs) ! Suc n) = Some (Inl err, sctx')"
      by simp
    then show ?thesis by blast
  qed
qed

lemma EvictGang_loop_error:
  "EvictGang_loop sctx jobs sched = (Inl err, sctx')
    \<Longrightarrow> \<exists>n < length jobs. \<exists>flag.
          EvictGang_loop sctx (take n jobs) sched = (Inr flag, sctx')
          \<and> EvictJob sctx' (jobs ! n) = (Inl err, sctx')"
proof (induction jobs arbitrary: sctx sched)
  case Nil
  then show ?case by simp
next
  case (Cons job jobs)
  obtain res sctx1 where step: "EvictJob sctx job = (res, sctx1)"
    by (cases "EvictJob sctx job")
  show ?case
  proof (cases res)
    case (Inl e)
    with step Cons.prems have "e = err" "sctx1 = sctx'" by simp_all
    moreover from step Inl have "sctx1 = sctx" by (auto dest: EvictJob_error)
    ultimately have "EvictGang_loop sctx (take 0 (job # jobs)) sched = (Inr sched, sctx')
        \<and> EvictJob sctx' ((job # jobs) ! 0) = (Inl err, sctx')"
      using step Inl by simp
    then show ?thesis by blast
  next
    case (Inr s1)
    with step Cons.prems have
      "EvictGang_loop sctx1 jobs (sched \<and> s1) = (Inl err, sctx')"
      by simp
    from Cons.IH [OF this] obtain n flag where
      n: "n < length jobs"
        "EvictGang_loop sctx1 (take n jobs) (sched \<and> s1) = (Inr flag, sctx')"
        "EvictJob sctx' (jobs ! n) = (Inl err, sctx')"
      by blast
    with step Inr have "Suc n < length (job # jobs)
        \<and> EvictGang_loop sctx (take (Suc n) (job # jobs)) sched = (Inr flag, sctx')
        \<and> EvictJob sctx' ((job # jobs) ! Suc n) = (Inl err, sctx')"
      by simp
    then show ?thesis by blast
  qed
qed

text \<open>
  Claim C4, as the code has it. Registering a queue, recording a job scheduling
  context and evicting a job leave the round (every field of it, and every field of
  the queue context for the two queue operations) exactly as it was when they return
  an error. Recording a gang and evicting a gang undo nothing: when they return an
  error, the round is in the state that the job-by-job loop had reached over the
  members before the failing one, and the failing member itself changed nothing.
\<close>

theorem error_leaves_round:
  "(fst (AddQueueSchedulingContext sctx queue weight initial) \<noteq> None
      \<longrightarrow> snd (AddQueueSchedulingContext sctx queue weight initial) = sctx)
   \<and> (AddJobSchedulingContext sctx jctx = Some (Inl err, sctx') \<longrightarrow> sctx' = sctx)
   \<and> (EvictJob sctx job = (Inl err, sctx') \<longrightarrow> sctx' = sctx)
   \<and> (QueueSchedulingContext_AddJobSchedulingContext qctx jctx = Some (Inl err, qctx')
        \<longrightarrow> qctx' = qctx)
   \<and> (QueueSchedulingContext_EvictJob qctx job = (Inl err, qctx') \<longrightarrow> qctx' = qctx)
   \<and> (AddGangSchedulingContext sctx gctx = Some (Inl err, sctx')
        \<longrightarrow> (\<exists>n < length (JobSchedulingContexts gctx). \<exists>flags.
               AddGangSchedulingContext_loop sctx (take n (JobSchedulingContexts gctx)) True True
                 = Some (Inr flags, sctx')
               \<and> AddJobSchedulingContext sctx' (JobSchedulingContexts gctx ! n)
                   = Some (Inl err, sctx')))
   \<and> (EvictGang sctx jobs = (Inl err, sctx')
        \<longrightarrow> (\<exists>n < length jobs. \<exists>flag.
               EvictGang_loop sctx (take n jobs) True = (Inr flag, sctx')
               \<and> EvictJob sctx' (jobs ! n) = (Inl err, sctx')))"
proof (intro conjI impI)
  assume "fst (AddQueueSchedulingContext sctx queue weight initial) \<noteq> None"
  then show "snd (AddQueueSchedulingContext sctx queue weight initial) = sctx"
    by (simp add: AddQueueSchedulingContext_def Let_def split: if_splits)
next
  assume "AddJobSchedulingContext sctx jctx = Some (Inl err, sctx')"
  then show "sctx' = sctx" by (rule AddJobSchedulingContext_error)
next
  assume "EvictJob sctx job = (Inl err, sctx')"
  then show "sctx' = sctx" by (rule EvictJob_error)
next
  assume "QueueSchedulingContext_AddJobSchedulingContext qctx jctx = Some (Inl err, qctx')"
  then show "qctx' = qctx" by (rule QueueSchedulingContext_AddJobSchedulingContext_error)
next
  assume "QueueSchedulingContext_EvictJob qctx job = (Inl err, qctx')"
  then show "qctx' = qctx" by (rule QueueSchedulingContext_EvictJob_error)
next
  assume "AddGangSchedulingContext sctx gctx = Some (Inl err, sctx')"
  then have "AddGangSchedulingContext_loop sctx (JobSchedulingContexts gctx) True True
               = Some (Inl err, sctx')"
    by (auto simp: AddGangSchedulingContext_def split: option.splits sum.splits prod.splits)
  then show "\<exists>n < length (JobSchedulingContexts gctx). \<exists>flags.
               AddGangSchedulingContext_loop sctx (take n (JobSchedulingContexts gctx)) True True
                 = Some (Inr flags, sctx')
               \<and> AddJobSchedulingContext sctx' (JobSchedulingContexts gctx ! n)
                   = Some (Inl err, sctx')"
    by (rule AddGangSchedulingContext_loop_error)
next
  assume "EvictGang sctx jobs = (Inl err, sctx')"
  then have "EvictGang_loop sctx jobs True = (Inl err, sctx')"
    by (auto simp: EvictGang_def split: sum.splits prod.splits)
  then show "\<exists>n < length jobs. \<exists>flag.
               EvictGang_loop sctx (take n jobs) True = (Inr flag, sctx')
               \<and> EvictJob sctx' (jobs ! n) = (Inl err, sctx')"
    by (rule EvictGang_loop_error)
qed

theorem error_leaves_round_witness:
  "fst (AddQueueSchedulingContext ex_roundA ''A'' 1 None) = Some QueueContextExists
   \<and> snd (AddQueueSchedulingContext ex_roundA ''A'' 1 None) = ex_roundA
   \<and> AddGangSchedulingContext ex_roundA (ex_gang [ex_jctx1, ex_jctx3])
       = Some (Inl NoContextForQueue, ex_roundA_j1)
   \<and> (\<exists>n < length [ex_jctx1, ex_jctx3]. \<exists>flags.
         AddGangSchedulingContext_loop ex_roundA (take n [ex_jctx1, ex_jctx3]) True True
           = Some (Inr flags, ex_roundA_j1)
         \<and> AddJobSchedulingContext ex_roundA_j1 ([ex_jctx1, ex_jctx3] ! n)
             = Some (Inl NoContextForQueue, ex_roundA_j1))"
proof -
  have q: "fst (AddQueueSchedulingContext ex_roundA ''A'' 1 None) = Some QueueContextExists"
    by (simp add: AddQueueSchedulingContext_def ex_roundA_fields)
  have g: "AddGangSchedulingContext ex_roundA (ex_gang [ex_jctx1, ex_jctx3])
             = Some (Inl NoContextForQueue, ex_roundA_j1)"
    by (simp add: AddGangSchedulingContext_def ex_gang_def ex_roundA_j1_def
        AddJobSchedulingContext_def QueueSchedulingContext_AddJobSchedulingContext_def
        ex_roundA_fields ex_jctx1_def ex_job1_def ex_jctx3_def ex_job3_def ex_queueA_def
        IsSuccessful_def Let_def)
  have l: "JobSchedulingContexts (ex_gang [ex_jctx1, ex_jctx3]) = [ex_jctx1, ex_jctx3]"
    by (simp add: ex_gang_def)
  from error_leaves_round [of ex_roundA "''A''" 1 None ex_jctx1 NoContextForQueue ex_roundA_j1
      ex_job1 ex_queueA ex_queueA "ex_gang [ex_jctx1, ex_jctx3]" "[]"] q g
  show ?thesis unfolding l by simp
qed

text \<open>
  The claim as it was stated fails on a gang: with queue \<open>A\<close> registered and queue
  \<open>C\<close> not, recording the gang of \<open>j1\<close> (queue \<open>A\<close>) and \<open>j3\<close> (queue \<open>C\<close>) returns
  the error of \<open>j3\<close>, and \<open>j1\<close> stays counted as scheduled.
\<close>

theorem gang_error_not_atomic:
  "map_option (\<lambda>(res, sctx'). (res, NumScheduledJobs sctx', NumScheduledJobs ex_roundA))
      (AddGangSchedulingContext ex_roundA (ex_gang [ex_jctx1, ex_jctx3]))
     = Some (Inl NoContextForQueue, 1, 0)"
  by (simp add: AddGangSchedulingContext_def ex_gang_def
     AddJobSchedulingContext_def QueueSchedulingContext_AddJobSchedulingContext_def
     ex_roundA_fields ex_jctx1_def ex_job1_def ex_jctx3_def ex_job3_def ex_queueA_def 
     IsSuccessful_def Let_def)

section \<open>Counting scheduled gangs\<close>

lemma QueueSchedulingContext_AddJobSchedulingContext_evicted:
  assumes "QueueSchedulingContext_AddJobSchedulingContext qctx jctx = Some (Inr ev, qctx')"
  shows "ev = (JobId jctx \<in> dom (EvictedJobsById qctx))"
    and "i \<noteq> JobId jctx \<Longrightarrow> (i \<in> dom (EvictedJobsById qctx')) = (i \<in> dom (EvictedJobsById qctx))"
  using assms
  by (auto simp: QueueSchedulingContext_AddJobSchedulingContext_def Let_def
      split: if_splits option.splits)

lemma AddJobSchedulingContext_cases:
  assumes "AddJobSchedulingContext sctx jctx = Some (res, sctx')"
  shows "\<exists>job. Job jctx = Some job \<and>
     (QueueSchedulingContexts sctx (GetQueue job) = None \<and> res = Inl NoContextForQueue \<and> sctx' = sctx
      \<or> (\<exists>qctx qres qctx'. QueueSchedulingContexts sctx (GetQueue job) = Some qctx
           \<and> QueueSchedulingContext_AddJobSchedulingContext qctx jctx = Some (qres, qctx')
           \<and> QueueSchedulingContexts sctx' = (QueueSchedulingContexts sctx)(GetQueue job \<mapsto> qctx')
           \<and> (isl qres \<longleftrightarrow> isl res) \<and> (\<forall>b. qres = Inr b \<longrightarrow> res = Inr b)
           \<and> NumScheduledGangs sctx' = NumScheduledGangs sctx
           \<and> UnfeasibleSchedulingKeys sctx' = UnfeasibleSchedulingKeys sctx))"
  using assms
  by (auto simp: AddJobSchedulingContext_def Let_def
      split: option.splits sum.splits if_splits)

lemma AddJobSchedulingContext_evicted:
  assumes "AddJobSchedulingContext sctx jctx = Some (Inr ev, sctx')"
  shows "ev = pre_evicted sctx jctx"
    and "NumScheduledGangs sctx' = NumScheduledGangs sctx"
    and "decision_key jctx' \<noteq> decision_key jctx \<Longrightarrow> pre_evicted sctx' jctx' = pre_evicted sctx jctx'"
proof -
  from AddJobSchedulingContext_cases [OF assms] obtain job qctx qres qctx' where
    c: "Job jctx = Some job" "QueueSchedulingContexts sctx (GetQueue job) = Some qctx"
      "QueueSchedulingContext_AddJobSchedulingContext qctx jctx = Some (qres, qctx')"
      "QueueSchedulingContexts sctx' = (QueueSchedulingContexts sctx)(GetQueue job \<mapsto> qctx')"
      "isl qres \<longleftrightarrow> isl (Inr ev :: error + bool)" "\<forall>b. qres = Inr b \<longrightarrow> (Inr ev :: error + bool) = Inr b"
      "NumScheduledGangs sctx' = NumScheduledGangs sctx"
    by auto
  from c(5,6) have qres: "qres = Inr ev" by (cases qres) auto
  note q = QueueSchedulingContext_AddJobSchedulingContext_evicted [OF c(3) [unfolded qres]]
  show "ev = pre_evicted sctx jctx"
    using q(1) c(1,2) by (simp add: pre_evicted_def job_evicted_def)
  show "NumScheduledGangs sctx' = NumScheduledGangs sctx" by (rule c(7))
  show "pre_evicted sctx' jctx' = pre_evicted sctx jctx'"
    if "decision_key jctx' \<noteq> decision_key jctx"
  proof (cases "Job jctx'")
    case None
    then show ?thesis by (simp add: pre_evicted_def)
  next
    case (Some job')
    show ?thesis
    proof (cases "GetQueue job' = GetQueue job")
      case True
      with that Some c(1) have "JobId jctx' \<noteq> JobId jctx"
        by (auto simp: decision_key_def)
      from q(2) [OF this] True Some c(2,4) show ?thesis
        by (simp add: pre_evicted_def job_evicted_def)
    next
      case False
      with Some c(4) show ?thesis
        by (simp add: pre_evicted_def job_evicted_def)
    qed
  qed
qed

lemma AddGangSchedulingContext_loop_flags:
  "AddGangSchedulingContext_loop sctx jctxs ev succ = Some (Inr (ev', succ'), sctx')
    \<Longrightarrow> distinct (map decision_key jctxs)
    \<Longrightarrow> ev' = (ev \<and> (\<forall>jctx \<in> set jctxs. pre_evicted sctx jctx))
        \<and> succ' = (succ \<and> (\<forall>jctx \<in> set jctxs. IsSuccessful jctx))
        \<and> NumScheduledGangs sctx' = NumScheduledGangs sctx"
proof (induction jctxs arbitrary: sctx ev succ)
  case Nil
  then show ?case by auto
next
  case (Cons jctx jctxs)
  from Cons.prems(1) obtain e1 sctx1 where
    step: "AddJobSchedulingContext sctx jctx = Some (Inr e1, sctx1)"
    and rest: "AddGangSchedulingContext_loop sctx1 jctxs (ev \<and> e1) (succ \<and> IsSuccessful jctx)
                 = Some (Inr (ev', succ'), sctx')"
    by (auto split: option.splits sum.splits)
  note s = AddJobSchedulingContext_evicted [OF step]
  from Cons.prems(2) have d: "distinct (map decision_key jctxs)"
    and n: "\<forall>jctx' \<in> set jctxs. decision_key jctx' \<noteq> decision_key jctx"
    by (auto simp: image_iff)
  from n have same: "\<forall>jctx' \<in> set jctxs. pre_evicted sctx1 jctx' = pre_evicted sctx jctx'"
    using s(3) by blast
  from Cons.IH [OF rest d] same s(1,2) show ?case by auto
qed

lemma ex_roundAB_evicted_fields:
  "QueueSchedulingContexts ex_roundAB_evicted ''B'' = Some ex_queueB_evicted"
  "NumScheduledGangs ex_roundAB_evicted = 0"
  by (auto simp: ex_roundAB_evicted_def EvictJob_def QueueSchedulingContext_EvictJob_def
      ex_roundAB_fields ex_job2_def ex_queueB_def ex_queueB_evicted_def Let_def fun_eq_iff
      qt_AddV1ResourceList_def qt_SubV1ResourceList_def rl_AddV1ResourceList_def
      rl_SubV1ResourceList_def qt_index_def rl_Get_def)

text \<open>
  Claim C3, as the code has it. The flag ``all jobs evicted in this round'' is made of
  what each member's own recording returns, that is, of whether the member is in the
  evicted map at the moment it is recorded. For a gang whose members are filed under
  pairwise different (queue, job id) pairs this is the same as being in the evicted
  map when the gang operation is entered; then a gang operation that returns without
  error adds one to \<open>NumScheduledGangs\<close> if every member is successful and at least
  one member was not in the evicted map of its queue at entry, and leaves
  \<open>NumScheduledGangs\<close> as it was otherwise.
\<close>

theorem gang_count:
  assumes "AddGangSchedulingContext sctx gctx = Some (Inr res, sctx')"
    and "distinct (map decision_key (JobSchedulingContexts gctx))"
  shows "NumScheduledGangs sctx' =
           NumScheduledGangs sctx
           + (if (\<forall>jctx \<in> set (JobSchedulingContexts gctx). IsSuccessful jctx)
                 \<and> (\<exists>jctx \<in> set (JobSchedulingContexts gctx). \<not> pre_evicted sctx jctx)
              then 1 else 0)"
proof -
  from assms(1) obtain ev succ sctx1 where
    l: "AddGangSchedulingContext_loop sctx (JobSchedulingContexts gctx) True True
          = Some (Inr (ev, succ), sctx1)"
    and r: "sctx' = (if succ \<and> \<not> ev
                     then sctx1\<lparr>NumScheduledGangs := NumScheduledGangs sctx1 + 1\<rparr> else sctx1)"
    by (auto simp: AddGangSchedulingContext_def split: option.splits sum.splits prod.splits)
  from AddGangSchedulingContext_loop_flags [OF l assms(2)] r show ?thesis by auto
qed

theorem gang_count_witness:
  "map_option (\<lambda>(res, sctx'). (res, NumScheduledGangs sctx'))
       (AddGangSchedulingContext ex_roundA (ex_gang [ex_jctx1])) = Some (Inr False, 1)"
proof -
  obtain sctx' where
    g: "AddGangSchedulingContext ex_roundA (ex_gang [ex_jctx1]) = Some (Inr False, sctx')"
    by (simp add: AddGangSchedulingContext_def ex_gang_def
        AddJobSchedulingContext_def QueueSchedulingContext_AddJobSchedulingContext_def
        ex_roundA_fields ex_jctx1_def ex_job1_def ex_queueA_def IsSuccessful_def Let_def)
  have d: "distinct (map decision_key (JobSchedulingContexts (ex_gang [ex_jctx1])))"
    by (simp add: ex_gang_def)
  have p: "\<not> pre_evicted ex_roundA ex_jctx1" "IsSuccessful ex_jctx1"
    by (simp_all add: pre_evicted_def job_evicted_def ex_roundA_fields ex_jctx1_def
        ex_job1_def ex_queueA_def IsSuccessful_def)
  from gang_count [OF g d] p have "NumScheduledGangs sctx' = 1"
    by (simp add: ex_gang_def ex_roundA_fields)
  with g show ?thesis by simp
qed

text \<open>
  Without the condition on the members the claim fails: a gang that lists the evicted
  job \<open>j2\<close> twice has every member successful and every member in the evicted map at
  entry, and yet counts as a scheduled gang, because recording the first occurrence
  takes \<open>j2\<close> out of the evicted map and does not put it into the successful map.
\<close>

theorem gang_count_counterexample:
  "pre_evicted ex_roundAB_evicted ex_jctx2 \<and> IsSuccessful ex_jctx2
   \<and> NumScheduledGangs ex_roundAB_evicted = 0
   \<and> map_option (\<lambda>(res, sctx'). (res, NumScheduledGangs sctx'))
       (AddGangSchedulingContext ex_roundAB_evicted (ex_gang [ex_jctx2, ex_jctx2]))
     = Some (Inr False, 1)"
  by (simp add: AddGangSchedulingContext_def ex_gang_def pre_evicted_def job_evicted_def
     AddJobSchedulingContext_def QueueSchedulingContext_AddJobSchedulingContext_def
     ex_roundAB_evicted_fields ex_jctx2_def ex_job2_def ex_queueB_def ex_queueB_evicted_def
     IsSuccessful_def Let_def)

section \<open>Properties of every queue context, along a sequence of operations\<close>

text \<open>
  The round changes a queue context only through the two queue operations, and a new
  queue context starts with empty maps; so a property of queue contexts that the two
  queue operations keep and that a new queue context has holds for every queue of the
  round after any sequence of operations.
\<close>

lemma all_queues_update:
  "all_queues P sctx \<Longrightarrow> P qctx'
    \<Longrightarrow> QueueSchedulingContexts sctx' = (QueueSchedulingContexts sctx)(queue \<mapsto> qctx')
    \<Longrightarrow> all_queues P sctx'"
  by (simp add: all_queues_def)

lemma all_queues_same:
  "all_queues P sctx \<Longrightarrow> QueueSchedulingContexts sctx' = QueueSchedulingContexts sctx
    \<Longrightarrow> all_queues P sctx'"
  by (simp add: all_queues_def)

lemma EvictJob_cases:
  assumes "EvictJob sctx job = (res, sctx')"
  shows "QueueSchedulingContexts sctx (GetQueue job) = None \<and> sctx' = sctx
     \<or> (\<exists>qctx qres qctx'. QueueSchedulingContexts sctx (GetQueue job) = Some qctx
           \<and> QueueSchedulingContext_EvictJob qctx job = (qres, qctx')
           \<and> QueueSchedulingContexts sctx' = (QueueSchedulingContexts sctx)(GetQueue job \<mapsto> qctx')
           \<and> UnfeasibleSchedulingKeys sctx' = UnfeasibleSchedulingKeys sctx)"
  using assms
  by (auto simp: EvictJob_def Let_def split: option.splits sum.splits if_splits prod.splits)

lemma AddQueueSchedulingContext_cases:
  assumes "AddQueueSchedulingContext sctx queue weight initial = (res, sctx')"
  shows "res = Some QueueContextExists \<and> sctx' = sctx
     \<or> (res = None \<and> (\<exists>qctx.
           QueueSchedulingContexts sctx' = (QueueSchedulingContexts sctx)(queue \<mapsto> qctx)
           \<and> UnfeasibleSchedulingKeys sctx' = UnfeasibleSchedulingKeys sctx
           \<and> SuccessfulJobSchedulingContexts qctx = Map.empty
           \<and> UnsuccessfulJobSchedulingContexts qctx = Map.empty
           \<and> EvictedJobsById qctx = Map.empty
           \<and> AllocatedByPriorityClass qctx = map_of (entries_of initial)
           \<and> Allocated qctx = fold (\<lambda>(p, rl) acc. rl_Add acc rl) (entries_of initial) Map.empty))"
  using assms
  by (auto simp: AddQueueSchedulingContext_def Let_def qt_DeepCopy_def entries_of_def
      split: if_splits)

lemma AddJobSchedulingContext_all_queues:
  assumes inv: "all_queues P sctx"
    and step: "AddJobSchedulingContext sctx jctx = Some (res, sctx')"
    and add: "\<And>qctx jctx qres qctx'. P qctx
        \<Longrightarrow> QueueSchedulingContext_AddJobSchedulingContext qctx jctx = Some (qres, qctx')
        \<Longrightarrow> P qctx'"
  shows "all_queues P sctx'"
proof -
  from AddJobSchedulingContext_cases [OF step] obtain job :: LegacySchedulerJob where
    c: "QueueSchedulingContexts sctx (GetQueue job) = None \<and> res = Inl NoContextForQueue \<and> sctx' = sctx
      \<or> (\<exists>qctx qres qctx'. QueueSchedulingContexts sctx (GetQueue job) = Some qctx
           \<and> QueueSchedulingContext_AddJobSchedulingContext qctx jctx = Some (qres, qctx')
           \<and> QueueSchedulingContexts sctx' = (QueueSchedulingContexts sctx)(GetQueue job \<mapsto> qctx'))"
    by blast
  then show ?thesis
  proof
    assume "QueueSchedulingContexts sctx (GetQueue job) = None \<and> res = Inl NoContextForQueue \<and> sctx' = sctx"
    with inv show ?thesis by simp
  next
    assume "\<exists>qctx qres qctx'. QueueSchedulingContexts sctx (GetQueue job) = Some qctx
           \<and> QueueSchedulingContext_AddJobSchedulingContext qctx jctx = Some (qres, qctx')
           \<and> QueueSchedulingContexts sctx' = (QueueSchedulingContexts sctx)(GetQueue job \<mapsto> qctx')"
    then obtain qctx qres qctx' where
      q: "QueueSchedulingContexts sctx (GetQueue job) = Some qctx"
        "QueueSchedulingContext_AddJobSchedulingContext qctx jctx = Some (qres, qctx')"
        "QueueSchedulingContexts sctx' = (QueueSchedulingContexts sctx)(GetQueue job \<mapsto> qctx')"
      by blast
    from inv q(1) have "P qctx" by (simp add: all_queues_def)
    from add [OF this q(2)] have "P qctx'" .
    from all_queues_update [OF inv this q(3)] show ?thesis .
  qed
qed

lemma EvictJob_all_queues:
  assumes inv: "all_queues P sctx"
    and step: "EvictJob sctx job = (res, sctx')"
    and evict: "\<And>qctx job qres qctx'. P qctx
        \<Longrightarrow> QueueSchedulingContext_EvictJob qctx job = (qres, qctx') \<Longrightarrow> P qctx'"
  shows "all_queues P sctx'"
  using EvictJob_cases [OF step]
proof
  assume "QueueSchedulingContexts sctx (GetQueue job) = None \<and> sctx' = sctx"
  with inv show ?thesis by simp
next
  assume "\<exists>qctx qres qctx'. QueueSchedulingContexts sctx (GetQueue job) = Some qctx
           \<and> QueueSchedulingContext_EvictJob qctx job = (qres, qctx')
           \<and> QueueSchedulingContexts sctx' = (QueueSchedulingContexts sctx)(GetQueue job \<mapsto> qctx')
           \<and> UnfeasibleSchedulingKeys sctx' = UnfeasibleSchedulingKeys sctx"
  then obtain qctx qres qctx' where
    q: "QueueSchedulingContexts sctx (GetQueue job) = Some qctx"
      "QueueSchedulingContext_EvictJob qctx job = (qres, qctx')"
      "QueueSchedulingContexts sctx' = (QueueSchedulingContexts sctx)(GetQueue job \<mapsto> qctx')"
    by blast
  from inv q(1) have "P qctx" by (simp add: all_queues_def)
  from evict [OF this q(2)] have "P qctx'" .
  from all_queues_update [OF inv this q(3)] show ?thesis .
qed

lemma AddGangSchedulingContext_loop_all_queues:
  assumes add: "\<And>qctx jctx qres qctx'. P qctx
        \<Longrightarrow> QueueSchedulingContext_AddJobSchedulingContext qctx jctx = Some (qres, qctx')
        \<Longrightarrow> P qctx'"
  shows "all_queues P sctx
    \<Longrightarrow> AddGangSchedulingContext_loop sctx jctxs ev succ = Some (res, sctx')
    \<Longrightarrow> all_queues P sctx'"
proof (induction jctxs arbitrary: sctx ev succ)
  case Nil
  then show ?case by simp
next
  case (Cons jctx jctxs)
  from Cons.prems(2) obtain r1 sctx1 where
    step: "AddJobSchedulingContext sctx jctx = Some (r1, sctx1)"
    by (auto split: option.splits)
  from AddJobSchedulingContext_all_queues [OF Cons.prems(1) step add]
  have inv1: "all_queues P sctx1" .
  show ?case
  proof (cases r1)
    case (Inl e)
    with step Cons.prems(2) inv1 show ?thesis by simp
  next
    case (Inr e1)
    with step Cons.prems(2) have
      "AddGangSchedulingContext_loop sctx1 jctxs (ev \<and> e1) (succ \<and> IsSuccessful jctx)
         = Some (res, sctx')"
      by simp
    from Cons.IH [OF inv1 this] show ?thesis .
  qed
qed

lemma AddGangSchedulingContext_queues:
  assumes "AddGangSchedulingContext sctx gctx = Some (res, sctx')"
  shows "\<exists>lres sctx1. AddGangSchedulingContext_loop sctx (JobSchedulingContexts gctx) True True
             = Some (lres, sctx1)
         \<and> QueueSchedulingContexts sctx' = QueueSchedulingContexts sctx1
         \<and> UnfeasibleSchedulingKeys sctx' = UnfeasibleSchedulingKeys sctx1"
  using assms
  by (auto simp: AddGangSchedulingContext_def split: option.splits sum.splits prod.splits if_splits)

lemma EvictGang_loop_all_queues:
  assumes evict: "\<And>qctx job qres qctx'. P qctx
        \<Longrightarrow> QueueSchedulingContext_EvictJob qctx job = (qres, qctx') \<Longrightarrow> P qctx'"
  shows "all_queues P sctx
    \<Longrightarrow> EvictGang_loop sctx jobs sched = (res, sctx')
    \<Longrightarrow> all_queues P sctx'"
proof (induction jobs arbitrary: sctx sched)
  case Nil
  then show ?case by simp
next
  case (Cons job jobs)
  obtain r1 sctx1 where step: "EvictJob sctx job = (r1, sctx1)"
    by (cases "EvictJob sctx job")
  from EvictJob_all_queues [OF Cons.prems(1) step evict]
  have inv1: "all_queues P sctx1" .
  show ?case
  proof (cases r1)
    case (Inl e)
    with step Cons.prems(2) inv1 show ?thesis by simp
  next
    case (Inr s1)
    with step Cons.prems(2) have
      "EvictGang_loop sctx1 jobs (sched \<and> s1) = (res, sctx')"
      by simp
    from Cons.IH [OF inv1 this] show ?thesis .
  qed
qed

lemma EvictGang_queues:
  assumes "EvictGang sctx jobs = (res, sctx')"
  shows "\<exists>lres sctx1. EvictGang_loop sctx jobs True = (lres, sctx1)
         \<and> QueueSchedulingContexts sctx' = QueueSchedulingContexts sctx1
         \<and> UnfeasibleSchedulingKeys sctx' = UnfeasibleSchedulingKeys sctx1"
  using assms
  by (auto simp: EvictGang_def split: sum.splits prod.splits if_splits)

lemma QueueSchedulingContext_AddGangSchedulingContext_loop_preserves:
  assumes add: "\<And>qctx jctx qres qctx'. P qctx
        \<Longrightarrow> QueueSchedulingContext_AddJobSchedulingContext qctx jctx = Some (qres, qctx')
        \<Longrightarrow> P qctx'"
  shows "P qctx
    \<Longrightarrow> QueueSchedulingContext_AddGangSchedulingContext_loop qctx jctxs = Some (res, qctx')
    \<Longrightarrow> P qctx'"
proof (induction jctxs arbitrary: qctx)
  case Nil
  then show ?case by simp
next
  case (Cons jctx jctxs)
  from Cons.prems(2) obtain r1 qctx1 where
    step: "QueueSchedulingContext_AddJobSchedulingContext qctx jctx = Some (r1, qctx1)"
    by (auto split: option.splits)
  from add [OF Cons.prems(1) step] have inv1: "P qctx1" .
  show ?case
  proof (cases r1)
    case (Inl e)
    with step Cons.prems(2) inv1 show ?thesis by simp
  next
    case (Inr e1)
    with step Cons.prems(2) have
      "QueueSchedulingContext_AddGangSchedulingContext_loop qctx1 jctxs = Some (res, qctx')"
      by simp
    from Cons.IH [OF inv1 this] show ?thesis .
  qed
qed

lemma on_queue_all_queues:
  assumes inv: "all_queues P sctx"
    and step: "on_queue sctx queue f = Some sctx'"
    and f: "\<And>qctx qctx'. P qctx \<Longrightarrow> f qctx = Some qctx' \<Longrightarrow> P qctx'"
  shows "all_queues P sctx'"
proof -
  from step obtain qctx qctx' where
    q: "QueueSchedulingContexts sctx queue = Some qctx" "f qctx = Some qctx'"
      "QueueSchedulingContexts sctx' = (QueueSchedulingContexts sctx)(queue \<mapsto> qctx')"
    by (auto simp: on_queue_def split: option.splits)
  from inv q(1) have "P qctx" by (simp add: all_queues_def)
  from f [OF this q(2)] have "P qctx'" .
  from all_queues_update [OF inv this q(3)] show ?thesis .
qed

lemma apply_operation_all_queues:
  assumes inv: "all_queues P sctx"
    and step: "apply_operation sctx opn = Some sctx'"
    and add: "\<And>qctx jctx qres qctx'. P qctx
        \<Longrightarrow> QueueSchedulingContext_AddJobSchedulingContext qctx jctx = Some (qres, qctx')
        \<Longrightarrow> P qctx'"
    and evict: "\<And>qctx job qres qctx'. P qctx
        \<Longrightarrow> QueueSchedulingContext_EvictJob qctx job = (qres, qctx') \<Longrightarrow> P qctx'"
    and new: "\<And>queue weight initial qctx.
        opn = OpAddQueueSchedulingContext queue weight initial
        \<Longrightarrow> SuccessfulJobSchedulingContexts qctx = Map.empty
        \<Longrightarrow> UnsuccessfulJobSchedulingContexts qctx = Map.empty
        \<Longrightarrow> EvictedJobsById qctx = Map.empty
        \<Longrightarrow> AllocatedByPriorityClass qctx = map_of (entries_of initial)
        \<Longrightarrow> Allocated qctx = fold (\<lambda>(p, rl) acc. rl_Add acc rl) (entries_of initial) Map.empty
        \<Longrightarrow> P qctx"
  shows "all_queues P sctx'"
proof (cases opn)
  case (OpAddQueueSchedulingContext queue weight initial)
  obtain res where r: "AddQueueSchedulingContext sctx queue weight initial = (res, sctx')"
    using step OpAddQueueSchedulingContext
    by (cases "AddQueueSchedulingContext sctx queue weight initial") simp
  from AddQueueSchedulingContext_cases [OF r] show ?thesis
  proof
    assume "res = Some QueueContextExists \<and> sctx' = sctx"
    with inv show ?thesis by simp
  next
    assume "res = None \<and> (\<exists>qctx.
           QueueSchedulingContexts sctx' = (QueueSchedulingContexts sctx)(queue \<mapsto> qctx)
           \<and> UnfeasibleSchedulingKeys sctx' = UnfeasibleSchedulingKeys sctx
           \<and> SuccessfulJobSchedulingContexts qctx = Map.empty
           \<and> UnsuccessfulJobSchedulingContexts qctx = Map.empty
           \<and> EvictedJobsById qctx = Map.empty
           \<and> AllocatedByPriorityClass qctx = map_of (entries_of initial)
           \<and> Allocated qctx = fold (\<lambda>(p, rl) acc. rl_Add acc rl) (entries_of initial) Map.empty)"
    then obtain qctx where
      q: "QueueSchedulingContexts sctx' = (QueueSchedulingContexts sctx)(queue \<mapsto> qctx)"
        "SuccessfulJobSchedulingContexts qctx = Map.empty"
        "UnsuccessfulJobSchedulingContexts qctx = Map.empty"
        "EvictedJobsById qctx = Map.empty"
        "AllocatedByPriorityClass qctx = map_of (entries_of initial)"
        "Allocated qctx = fold (\<lambda>(p, rl) acc. rl_Add acc rl) (entries_of initial) Map.empty"
      by blast
    from new [OF OpAddQueueSchedulingContext q(2-6)] have "P qctx" .
    from all_queues_update [OF inv this q(1)] show ?thesis .
  qed
next
  case (OpAddJobSchedulingContext jctx)
  with step obtain res where "AddJobSchedulingContext sctx jctx = Some (res, sctx')"
    by auto
  from AddJobSchedulingContext_all_queues [OF inv this add] show ?thesis .
next
  case (OpAddGangSchedulingContext gctx)
  with step obtain res where "AddGangSchedulingContext sctx gctx = Some (res, sctx')"
    by auto
  from AddGangSchedulingContext_queues [OF this] obtain lres sctx1 where
    l: "AddGangSchedulingContext_loop sctx (JobSchedulingContexts gctx) True True
          = Some (lres, sctx1)"
      "QueueSchedulingContexts sctx' = QueueSchedulingContexts sctx1"
    by blast
  from AddGangSchedulingContext_loop_all_queues [of P, OF add inv l(1)]
  have "all_queues P sctx1" .
  from all_queues_same [OF this l(2)] show ?thesis .
next
  case (OpEvictJob job)
  with step have "EvictJob sctx job = (fst (EvictJob sctx job), sctx')"
    by (cases "EvictJob sctx job") simp
  from EvictJob_all_queues [OF inv this evict] show ?thesis .
next
  case (OpEvictGang jobs)
  with step have "EvictGang sctx jobs = (fst (EvictGang sctx jobs), sctx')"
    by (cases "EvictGang sctx jobs") simp
  from EvictGang_queues [OF this] obtain lres sctx1 where
    l: "EvictGang_loop sctx jobs True = (lres, sctx1)"
      "QueueSchedulingContexts sctx' = QueueSchedulingContexts sctx1"
    by blast
  from EvictGang_loop_all_queues [of P, OF evict inv l(1)]
  have "all_queues P sctx1" .
  from all_queues_same [OF this l(2)] show ?thesis .
next
  case (OpQueueAddJobSchedulingContext queue jctx)
  with step have s: "on_queue sctx queue
       (\<lambda>qctx. map_option snd (QueueSchedulingContext_AddJobSchedulingContext qctx jctx))
       = Some sctx'"
    by simp
  show ?thesis
    by (rule on_queue_all_queues [OF inv s]) (auto intro: add)
next
  case (OpQueueAddGangSchedulingContext queue gctx)
  with step have s: "on_queue sctx queue
       (\<lambda>qctx. map_option snd (QueueSchedulingContext_AddGangSchedulingContext qctx gctx))
       = Some sctx'"
    by simp
  show ?thesis
    by (rule on_queue_all_queues [OF inv s])
      (auto simp: QueueSchedulingContext_AddGangSchedulingContext_def
        intro: QueueSchedulingContext_AddGangSchedulingContext_loop_preserves [of P, OF add])
next
  case (OpQueueEvictJob queue job)
  with step have s: "on_queue sctx queue
       (\<lambda>qctx. Some (snd (QueueSchedulingContext_EvictJob qctx job))) = Some sctx'"
    by simp
  show ?thesis
  proof (rule on_queue_all_queues [OF inv s])
    fix qctx qctx'
    assume "P qctx" "Some (snd (QueueSchedulingContext_EvictJob qctx job)) = Some qctx'"
    then show "P qctx'"
      using evict [of qctx job "fst (QueueSchedulingContext_EvictJob qctx job)" qctx']
      by (cases "QueueSchedulingContext_EvictJob qctx job") auto
  qed
next
  case (OpAddUnfeasibleSchedulingKey key jctx)
  with step inv show ?thesis
    by (auto simp: AddUnfeasibleSchedulingKey_def all_queues_def)
next
  case OpClearUnfeasibleSchedulingKeys
  with step inv show ?thesis
    by (auto simp: ClearUnfeasibleSchedulingKeys_def all_queues_def)
qed

lemma apply_operations_all_queues:
  assumes add: "\<And>qctx jctx qres qctx'. P qctx
        \<Longrightarrow> QueueSchedulingContext_AddJobSchedulingContext qctx jctx = Some (qres, qctx')
        \<Longrightarrow> P qctx'"
    and evict: "\<And>qctx job qres qctx'. P qctx
        \<Longrightarrow> QueueSchedulingContext_EvictJob qctx job = (qres, qctx') \<Longrightarrow> P qctx'"
    and new: "\<And>queue weight initial qctx.
        OpAddQueueSchedulingContext queue weight initial \<in> set ops
        \<Longrightarrow> SuccessfulJobSchedulingContexts qctx = Map.empty
        \<Longrightarrow> UnsuccessfulJobSchedulingContexts qctx = Map.empty
        \<Longrightarrow> EvictedJobsById qctx = Map.empty
        \<Longrightarrow> AllocatedByPriorityClass qctx = map_of (entries_of initial)
        \<Longrightarrow> Allocated qctx = fold (\<lambda>(p, rl) acc. rl_Add acc rl) (entries_of initial) Map.empty
        \<Longrightarrow> P qctx"
  shows "all_queues P sctx \<Longrightarrow> apply_operations sctx ops = Some sctx' \<Longrightarrow> all_queues P sctx'"
  using new
proof (induction ops arbitrary: sctx)
  case Nil
  then show ?case by simp
next
  case (Cons opn ops)
  from Cons.prems(2) obtain sctx1 where
    step: "apply_operation sctx opn = Some sctx1"
    and rest: "apply_operations sctx1 ops = Some sctx'"
    by (auto split: option.splits)
  have "all_queues P sctx1"
    by (rule apply_operation_all_queues [OF Cons.prems(1) step add evict])
      (auto intro: Cons.prems(3))
  from Cons.IH [OF this rest] Cons.prems(3) show ?case by auto
qed

section \<open>The three maps of a queue context\<close>

lemma QueueSchedulingContext_AddJobSchedulingContext_disjoint:
  assumes "dom (SuccessfulJobSchedulingContexts qctx) \<inter> dom (UnsuccessfulJobSchedulingContexts qctx) = {}
         \<and> dom (SuccessfulJobSchedulingContexts qctx) \<inter> dom (EvictedJobsById qctx) = {}"
    and "QueueSchedulingContext_AddJobSchedulingContext qctx jctx = Some (res, qctx')"
  shows "dom (SuccessfulJobSchedulingContexts qctx') \<inter> dom (UnsuccessfulJobSchedulingContexts qctx') = {}
       \<and> dom (SuccessfulJobSchedulingContexts qctx') \<inter> dom (EvictedJobsById qctx') = {}"
  using assms
  by (auto simp: QueueSchedulingContext_AddJobSchedulingContext_def Let_def disjoint_iff domIff
      split: if_splits option.splits)

lemma QueueSchedulingContext_EvictJob_disjoint:
  assumes "dom (SuccessfulJobSchedulingContexts qctx) \<inter> dom (UnsuccessfulJobSchedulingContexts qctx) = {}
         \<and> dom (SuccessfulJobSchedulingContexts qctx) \<inter> dom (EvictedJobsById qctx) = {}"
    and "QueueSchedulingContext_EvictJob qctx job = (res, qctx')"
  shows "dom (SuccessfulJobSchedulingContexts qctx') \<inter> dom (UnsuccessfulJobSchedulingContexts qctx') = {}
       \<and> dom (SuccessfulJobSchedulingContexts qctx') \<inter> dom (EvictedJobsById qctx') = {}"
  using assms
  by (auto simp: QueueSchedulingContext_EvictJob_def Let_def disjoint_iff domIff
      split: if_splits)

text \<open>
  Claim C2, as the code has it. After any sequence of public operations on a new
  round, the job ids of the successful map of a queue context are disjoint from those
  of its unsuccessful map and from those of its evicted map. (The unsuccessful and the
  evicted map are not kept apart: see below.)
\<close>

theorem successful_disjoint:
  assumes "apply_operations
             (NewSchedulingContext executorId pool priorityClasses defaultPriorityClass totalResources)
             ops = Some sctx"
    and "QueueSchedulingContexts sctx queue = Some qctx"
  shows "dom (SuccessfulJobSchedulingContexts qctx) \<inter> dom (UnsuccessfulJobSchedulingContexts qctx) = {}
       \<and> dom (SuccessfulJobSchedulingContexts qctx) \<inter> dom (EvictedJobsById qctx) = {}"
proof -
  let ?P = "\<lambda>qctx. dom (SuccessfulJobSchedulingContexts qctx)
                      \<inter> dom (UnsuccessfulJobSchedulingContexts qctx) = {}
                  \<and> dom (SuccessfulJobSchedulingContexts qctx) \<inter> dom (EvictedJobsById qctx) = {}"
  have "all_queues ?P
          (NewSchedulingContext executorId pool priorityClasses defaultPriorityClass totalResources
            :: 'a SchedulingContext)"
    by (simp add: all_queues_def NewSchedulingContext_def)
  then have "all_queues ?P sctx"
  proof (rule apply_operations_all_queues [of ?P, rotated 3])
    show "apply_operations
             (NewSchedulingContext executorId pool priorityClasses defaultPriorityClass totalResources)
             ops = Some sctx"
      by (rule assms(1))
  next
    fix qctx jctx qres qctx'
    assume "?P qctx" "QueueSchedulingContext_AddJobSchedulingContext qctx jctx = Some (qres, qctx')"
    then show "?P qctx'" by (rule QueueSchedulingContext_AddJobSchedulingContext_disjoint)
  next
    fix qctx job qres qctx'
    assume "?P qctx" "QueueSchedulingContext_EvictJob qctx job = (qres, qctx')"
    then show "?P qctx'" by (rule QueueSchedulingContext_EvictJob_disjoint)
  next
    fix qctx :: QueueSchedulingContext
    assume "SuccessfulJobSchedulingContexts qctx = Map.empty"
    then show "?P qctx" by simp
  qed
  with assms(2) show ?thesis by (simp add: all_queues_def)
qed

theorem successful_disjoint_witness:
  "apply_operations ex_round
      [OpAddQueueSchedulingContext ''A'' 1 None, OpAddJobSchedulingContext ex_jctx1]
     = Some ex_roundA_j1
   \<and> QueueSchedulingContexts ex_roundA_j1 ''A'' = Some ex_queueA_j1
   \<and> ''j1'' \<in> dom (SuccessfulJobSchedulingContexts ex_queueA_j1)
   \<and> dom (SuccessfulJobSchedulingContexts ex_queueA_j1)
        \<inter> dom (UnsuccessfulJobSchedulingContexts ex_queueA_j1) = {}
   \<and> dom (SuccessfulJobSchedulingContexts ex_queueA_j1)
        \<inter> dom (EvictedJobsById ex_queueA_j1) = {}"
proof -
  have run: "apply_operations
      (NewSchedulingContext ''executor'' ''pool'' Map.empty ''p1''
         [''cpu'' \<mapsto> 10, ''memory'' \<mapsto> 100] :: SchedulingKeyFields SchedulingContext)
      [OpAddQueueSchedulingContext ''A'' 1 None, OpAddJobSchedulingContext ex_jctx1]
     = Some ex_roundA_j1"
    using ex_roundA_j1_fields(1) by (simp add: ex_roundA_def ex_round_def)
  have q: "QueueSchedulingContexts ex_roundA_j1 ''A'' = Some ex_queueA_j1"
    by (simp add: ex_roundA_j1_fields)
  from successful_disjoint [OF run q] run q show ?thesis
    by (simp add: ex_round_def ex_queueA_j1_def)
qed

text \<open>
  The unsuccessful and the evicted map do overlap: an evicted job whose later job
  scheduling context is unsuccessful is filed in the unsuccessful map and stays in the
  evicted map. Here \<open>j1\<close> is evicted from queue \<open>A\<close> and then recorded with an
  unschedulable reason.
\<close>

theorem unsuccessful_evicted_overlap:
  "map_option
     (\<lambda>sctx. map_option
        (\<lambda>qctx. (''j1'' \<in> dom (UnsuccessfulJobSchedulingContexts qctx),
                 ''j1'' \<in> dom (EvictedJobsById qctx)))
        (QueueSchedulingContexts sctx ''A''))
     (apply_operations ex_round
        [OpAddQueueSchedulingContext ''A'' 1 None, OpEvictJob ex_job1,
         OpAddJobSchedulingContext ex_jctx1_failed])
   = Some (Some (True, True))"
  by (simp add: ex_round_def [symmetric] ex_roundA_def [symmetric])
    (simp add: EvictJob_def QueueSchedulingContext_EvictJob_def
      AddJobSchedulingContext_def QueueSchedulingContext_AddJobSchedulingContext_def
      ex_roundA_fields ex_jctx1_failed_def ex_jctx1_def ex_job1_def ex_queueA_def
      IsSuccessful_def Let_def)

section \<open>Allocation of a queue and its classes\<close>

lemma qt_Get_absent: "p \<notin> dom a \<Longrightarrow> qt_Get a p t = 0"
  by (auto simp: qt_Get_def qt_index_def rl_Get_def domIff)

lemma qt_Total_update:
  assumes "finite (dom a)"
  shows "qt_Total (a(p \<mapsto> rl)) t = qt_Total a t - qt_Get a p t + rl_Get rl t"
proof -
  have rest: "(\<Sum>p' \<in> dom a - {p}. qt_Get (a(p \<mapsto> rl)) p' t) = (\<Sum>p' \<in> dom a - {p}. qt_Get a p' t)"
    by (rule sum.cong) (auto simp: qt_Get_def qt_index_def)
  have new: "qt_Total (a(p \<mapsto> rl)) t = rl_Get rl t + (\<Sum>p' \<in> dom a - {p}. qt_Get a p' t)"
    using assms rest
    by (simp add: qt_Total_def sum.insert_remove) (simp add: qt_Get_def qt_index_def)
  have old: "qt_Total a t = qt_Get a p t + (\<Sum>p' \<in> dom a - {p}. qt_Get a p' t)"
  proof (cases "p \<in> dom a")
    case True
    with assms show ?thesis by (simp add: qt_Total_def sum.remove)
  next
    case False
    then have "dom a - {p} = dom a" by auto
    with False show ?thesis by (simp add: qt_Total_def qt_Get_absent)
  qed
  from new old show ?thesis by simp
qed

lemma qt_Total_AddV1ResourceList:
  "finite (dom a) \<Longrightarrow> qt_Total (qt_AddV1ResourceList a p b) t = qt_Total a t + rl_Get b t"
  by (simp add: qt_AddV1ResourceList_def qt_Total_update rl_Get_AddV1ResourceList qt_Get_def)

lemma qt_Total_SubV1ResourceList:
  "finite (dom a) \<Longrightarrow> qt_Total (qt_SubV1ResourceList a p b) t = qt_Total a t - rl_Get b t"
  by (simp add: qt_SubV1ResourceList_def qt_Total_update rl_Get_SubV1ResourceList qt_Get_def)

lemma fold_rl_Add_total:
  "distinct (map fst es)
    \<Longrightarrow> rl_Get (fold (\<lambda>(p, rl) acc. rl_Add acc rl) es acc) t
        = rl_Get acc t + qt_Total (map_of es) t"
proof (induction es arbitrary: acc)
  case Nil
  then show ?case by (simp add: qt_Total_def)
next
  case (Cons e es)
  obtain p rl where e: "e = (p, rl)" by (cases e)
  from Cons.prems e have d: "distinct (map fst es)" and n: "p \<notin> dom (map_of es)"
    by (auto simp: dom_map_of_conv_image_fst)
  have tot: "qt_Total (map_of ((p, rl) # es)) t = qt_Total (map_of es) t + rl_Get rl t"
    using n by (simp add: qt_Total_update finite_dom_map_of qt_Get_absent)
  from Cons.IH [OF d, of "rl_Add acc rl"]
  have "rl_Get (fold (\<lambda>(p, rl) acc. rl_Add acc rl) ((p, rl) # es) acc) t
          = rl_Get acc t + rl_Get rl t + qt_Total (map_of es) t"
    by (simp add: rl_Get_Add)
  with tot show ?case unfolding e by (simp del: map_of.simps)
qed

lemma dom_qt_AddV1ResourceList: "dom (qt_AddV1ResourceList a p b) = insert p (dom a)"
  by (simp add: qt_AddV1ResourceList_def)

lemma dom_qt_SubV1ResourceList: "dom (qt_SubV1ResourceList a p b) = insert p (dom a)"
  by (simp add: qt_SubV1ResourceList_def)

lemma QueueSchedulingContext_AddJobSchedulingContext_total:
  assumes "finite (dom (AllocatedByPriorityClass qctx))
         \<and> (\<forall>t. rl_Get (Allocated qctx) t = qt_Total (AllocatedByPriorityClass qctx) t)"
    and "QueueSchedulingContext_AddJobSchedulingContext qctx jctx = Some (res, qctx')"
  shows "finite (dom (AllocatedByPriorityClass qctx'))
       \<and> (\<forall>t. rl_Get (Allocated qctx') t = qt_Total (AllocatedByPriorityClass qctx') t)"
  using assms
  by (auto simp: QueueSchedulingContext_AddJobSchedulingContext_def Let_def
      qt_Total_AddV1ResourceList rl_Get_AddV1ResourceList dom_qt_AddV1ResourceList
      split: if_splits option.splits)

lemma QueueSchedulingContext_EvictJob_total:
  assumes "finite (dom (AllocatedByPriorityClass qctx))
         \<and> (\<forall>t. rl_Get (Allocated qctx) t = qt_Total (AllocatedByPriorityClass qctx) t)"
    and "QueueSchedulingContext_EvictJob qctx job = (res, qctx')"
  shows "finite (dom (AllocatedByPriorityClass qctx'))
       \<and> (\<forall>t. rl_Get (Allocated qctx') t = qt_Total (AllocatedByPriorityClass qctx') t)"
  using assms
  by (auto simp: QueueSchedulingContext_EvictJob_def Let_def
      qt_Total_SubV1ResourceList rl_Get_SubV1ResourceList dom_qt_SubV1ResourceList
      split: if_splits)

text \<open>
  Claim C7. After any sequence of public operations on a new round (registrations
  with the entries of a Go map, so with pairwise different classes), the quantity of
  every resource in \<open>Allocated\<close> of a queue context is the sum over the priority
  classes of its quantity in \<open>AllocatedByPriorityClass\<close>.
\<close>

theorem allocated_is_total:
  assumes "apply_operations
             (NewSchedulingContext executorId pool priorityClasses defaultPriorityClass totalResources)
             ops = Some sctx"
    and "\<forall>opn \<in> set ops. initial_entries_distinct opn"
    and "QueueSchedulingContexts sctx queue = Some qctx"
  shows "rl_Get (Allocated qctx) t = qt_Total (AllocatedByPriorityClass qctx) t"
proof -
  let ?P = "\<lambda>qctx. finite (dom (AllocatedByPriorityClass qctx))
         \<and> (\<forall>t. rl_Get (Allocated qctx) t = qt_Total (AllocatedByPriorityClass qctx) t)"
  have "all_queues ?P
          (NewSchedulingContext executorId pool priorityClasses defaultPriorityClass totalResources
            :: 'a SchedulingContext)"
    by (simp add: all_queues_def NewSchedulingContext_def)
  then have "all_queues ?P sctx"
  proof (rule apply_operations_all_queues [of ?P, rotated 3])
    show "apply_operations
             (NewSchedulingContext executorId pool priorityClasses defaultPriorityClass totalResources)
             ops = Some sctx"
      by (rule assms(1))
  next
    fix qctx jctx qres qctx'
    assume "?P qctx" "QueueSchedulingContext_AddJobSchedulingContext qctx jctx = Some (qres, qctx')"
    then show "?P qctx'" by (rule QueueSchedulingContext_AddJobSchedulingContext_total)
  next
    fix qctx job qres qctx'
    assume "?P qctx" "QueueSchedulingContext_EvictJob qctx job = (qres, qctx')"
    then show "?P qctx'" by (rule QueueSchedulingContext_EvictJob_total)
  next
    fix queue weight initial and qctx :: QueueSchedulingContext
    assume o: "(OpAddQueueSchedulingContext queue weight initial :: 'a operation) \<in> set ops"
      and a: "AllocatedByPriorityClass qctx = map_of (entries_of initial)"
        "Allocated qctx = fold (\<lambda>(p, rl) acc. rl_Add acc rl) (entries_of initial) Map.empty"
    from o assms(2) have "initial_entries_distinct
        (OpAddQueueSchedulingContext queue weight initial :: 'a operation)"
      by blast
    then have "distinct (map fst (entries_of initial))"
      by (cases initial) (simp_all add: entries_of_def)
    from fold_rl_Add_total [OF this] a show "?P qctx"
      by (simp add: finite_dom_map_of rl_Get_def)
  qed
  with assms(3) show ?thesis by (simp add: all_queues_def)
qed

theorem allocated_is_total_witness:
  "apply_operations ex_round
      [OpAddQueueSchedulingContext ''A'' 1 None,
       OpAddQueueSchedulingContext ''B'' 2 (Some [(''p1'', [''cpu'' \<mapsto> 5, ''memory'' \<mapsto> 50])]),
       OpEvictJob ex_job2]
     = Some ex_roundAB_evicted
   \<and> QueueSchedulingContexts ex_roundAB_evicted ''B'' = Some ex_queueB_evicted
   \<and> rl_Get (Allocated ex_queueB_evicted) ''cpu''
       = qt_Total (AllocatedByPriorityClass ex_queueB_evicted) ''cpu''"
proof -
  let ?ops = "[OpAddQueueSchedulingContext ''A'' 1 None,
       OpAddQueueSchedulingContext ''B'' 2 (Some [(''p1'', [''cpu'' \<mapsto> 5, ''memory'' \<mapsto> 50])]),
       OpEvictJob ex_job2] :: SchedulingKeyFields operation list"
  have run: "apply_operations
      (NewSchedulingContext ''executor'' ''pool'' Map.empty ''p1''
         [''cpu'' \<mapsto> 10, ''memory'' \<mapsto> 100]) ?ops
     = Some ex_roundAB_evicted"
    by (simp add: ex_roundAB_evicted_def ex_roundAB_def ex_roundA_def ex_round_def)
  have d: "\<forall>opn \<in> set ?ops. initial_entries_distinct opn"
    by simp
  from allocated_is_total [OF run d ex_roundAB_evicted_fields(1)] run
    ex_roundAB_evicted_fields(1)
  show ?thesis
    by (simp add: ex_round_def)
qed

section \<open>The cache of unfeasible scheduling keys\<close>

lemma AddGangSchedulingContext_loop_keys:
  "AddGangSchedulingContext_loop sctx jctxs ev succ = Some (res, sctx')
    \<Longrightarrow> UnfeasibleSchedulingKeys sctx' = UnfeasibleSchedulingKeys sctx"
proof (induction jctxs arbitrary: sctx ev succ)
  case Nil
  then show ?case by simp
next
  case (Cons jctx jctxs)
  from Cons.prems obtain r1 sctx1 where
    step: "AddJobSchedulingContext sctx jctx = Some (r1, sctx1)"
    by (auto split: option.splits)
  from AddJobSchedulingContext_cases [OF step]
  have k: "UnfeasibleSchedulingKeys sctx1 = UnfeasibleSchedulingKeys sctx" by auto
  show ?case
  proof (cases r1)
    case (Inl e)
    with step Cons.prems k show ?thesis by simp
  next
    case (Inr e1)
    with step Cons.prems have
      "AddGangSchedulingContext_loop sctx1 jctxs (ev \<and> e1) (succ \<and> IsSuccessful jctx)
         = Some (res, sctx')"
      by simp
    from Cons.IH [OF this] k show ?thesis by simp
  qed
qed

lemma EvictGang_loop_keys:
  "EvictGang_loop sctx jobs sched = (res, sctx')
    \<Longrightarrow> UnfeasibleSchedulingKeys sctx' = UnfeasibleSchedulingKeys sctx"
proof (induction jobs arbitrary: sctx sched)
  case Nil
  then show ?case by simp
next
  case (Cons job jobs)
  obtain r1 sctx1 where step: "EvictJob sctx job = (r1, sctx1)"
    by (cases "EvictJob sctx job")
  from EvictJob_cases [OF step]
  have k: "UnfeasibleSchedulingKeys sctx1 = UnfeasibleSchedulingKeys sctx" by auto
  show ?case
  proof (cases r1)
    case (Inl e)
    with step Cons.prems k show ?thesis by simp
  next
    case (Inr s1)
    with step Cons.prems have "EvictGang_loop sctx1 jobs (sched \<and> s1) = (res, sctx')"
      by simp
    from Cons.IH [OF this] k show ?thesis by simp
  qed
qed
lemma apply_operation_keys:
  assumes "apply_operation sctx opn = Some sctx'"
  shows "UnfeasibleSchedulingKeys sctx' =
           (case opn of
              OpAddUnfeasibleSchedulingKey key jctx \<Rightarrow> (UnfeasibleSchedulingKeys sctx)(key \<mapsto> jctx)
            | OpClearUnfeasibleSchedulingKeys \<Rightarrow> Map.empty
            | _ \<Rightarrow> UnfeasibleSchedulingKeys sctx)"
proof (cases opn)
  case (OpAddQueueSchedulingContext queue weight initial)
  with assms show ?thesis
    by (auto simp: AddQueueSchedulingContext_def Let_def split: if_splits)
next
  case (OpAddJobSchedulingContext jctx)
  with assms obtain res where "AddJobSchedulingContext sctx jctx = Some (res, sctx')"
    by auto
  from AddJobSchedulingContext_cases [OF this] OpAddJobSchedulingContext show ?thesis
    by auto
next
  case (OpAddGangSchedulingContext gctx)
  with assms obtain res where "AddGangSchedulingContext sctx gctx = Some (res, sctx')"
    by auto
  from AddGangSchedulingContext_queues [OF this] OpAddGangSchedulingContext show ?thesis
    by (auto dest: AddGangSchedulingContext_loop_keys)
next
  case (OpEvictJob job)
  with assms have "EvictJob sctx job = (fst (EvictJob sctx job), sctx')"
    by (cases "EvictJob sctx job") simp
  from EvictJob_cases [OF this] OpEvictJob show ?thesis by auto
next
  case (OpEvictGang jobs)
  with assms have "EvictGang sctx jobs = (fst (EvictGang sctx jobs), sctx')"
    by (cases "EvictGang sctx jobs") simp
  from EvictGang_queues [OF this] OpEvictGang show ?thesis
    by (auto dest: EvictGang_loop_keys)
next
  case (OpQueueAddJobSchedulingContext queue jctx)
  with assms show ?thesis by (auto simp: on_queue_def split: option.splits)
next
  case (OpQueueAddGangSchedulingContext queue gctx)
  with assms show ?thesis by (auto simp: on_queue_def split: option.splits)
next
  case (OpQueueEvictJob queue job)
  with assms show ?thesis by (auto simp: on_queue_def split: option.splits)
next
  case (OpAddUnfeasibleSchedulingKey key jctx)
  with assms show ?thesis by (auto simp: AddUnfeasibleSchedulingKey_def)
next
  case OpClearUnfeasibleSchedulingKeys
  with assms show ?thesis by (auto simp: ClearUnfeasibleSchedulingKeys_def)
qed

text \<open>
  Claim C8, as the code has it. Every key that the cache holds after a sequence of
  public operations was in it before or was inserted by a caller during the sequence;
  and a sequence without insertions and without clearing (registrations, recordings
  of jobs and gangs, evictions, in any order) leaves the cache exactly as it was.
  Recording a successful job scheduling context neither removes nor checks a key.
\<close>

theorem unfeasible_keys_by_caller_only:
  assumes "apply_operations sctx ops = Some sctx'"
  shows "dom (UnfeasibleSchedulingKeys sctx')
           \<subseteq> dom (UnfeasibleSchedulingKeys sctx) \<union> added_keys ops
       \<and> (added_keys ops = {} \<and> OpClearUnfeasibleSchedulingKeys \<notin> set ops
            \<longrightarrow> UnfeasibleSchedulingKeys sctx' = UnfeasibleSchedulingKeys sctx)"
  using assms
proof (induction ops arbitrary: sctx)
  case Nil
  then show ?case by simp
next
  case (Cons opn ops)
  from Cons.prems obtain sctx1 where
    step: "apply_operation sctx opn = Some sctx1"
    and rest: "apply_operations sctx1 ops = Some sctx'"
    by (auto split: option.splits)
  note k = apply_operation_keys [OF step]
  note ih = Cons.IH [OF rest]
  show ?case
  proof (cases opn)
    case (OpAddUnfeasibleSchedulingKey key jctx)
    with k ih show ?thesis by auto
  next
    case OpClearUnfeasibleSchedulingKeys
    with k ih show ?thesis by auto
  qed (use k ih in auto)
qed

theorem unfeasible_keys_by_caller_only_witness:
  "apply_operations ex_round
      [OpAddQueueSchedulingContext ''A'' 1 None, OpAddJobSchedulingContext ex_jctx1]
     = Some ex_roundA_j1
   \<and> UnfeasibleSchedulingKeys ex_roundA_j1 = UnfeasibleSchedulingKeys ex_round"
proof -
  let ?ops = "[OpAddQueueSchedulingContext ''A'' 1 None, OpAddJobSchedulingContext ex_jctx1]
                :: SchedulingKeyFields operation list"
  have run: "apply_operations ex_round ?ops = Some ex_roundA_j1"
    using ex_roundA_j1_fields(1) by (simp add: ex_roundA_def)
  have "added_keys ?ops = {}" "OpClearUnfeasibleSchedulingKeys \<notin> set ?ops"
    by simp_all
  with unfeasible_keys_by_caller_only [OF run] run show ?thesis by simp
qed

text \<open>
  So the cache can hold the key of a job that is recorded as successful: the caller
  inserts the key of \<open>j1\<close>, and \<open>j1\<close> is then recorded as scheduled in queue \<open>A\<close>.
\<close>

theorem unfeasible_key_of_successful_job:
  "map_option
     (\<lambda>sctx. (SchedulingKeyFromLegacySchedulerJob ex_Key sctx ex_job1
                 \<in> dom (UnfeasibleSchedulingKeys sctx),
               map_option
                 (\<lambda>qctx. map_option (\<lambda>jctx. (IsSuccessful jctx, Job jctx))
                            (SuccessfulJobSchedulingContexts qctx ''j1''))
                 (QueueSchedulingContexts sctx ''A'')))
     (apply_operations ex_round
        [OpAddQueueSchedulingContext ''A'' 1 None,
         OpAddUnfeasibleSchedulingKey
           (SchedulingKeyFromLegacySchedulerJob ex_Key ex_round ex_job1) ex_jctx1_failed,
         OpAddJobSchedulingContext ex_jctx1])
   = Some (True, Some (Some (True, Some ex_job1)))"
  by (simp add: ex_round_def [symmetric] ex_roundA_def [symmetric])
    (simp add: AddUnfeasibleSchedulingKey_def SchedulingKeyFromLegacySchedulerJob_def
      AddJobSchedulingContext_def QueueSchedulingContext_AddJobSchedulingContext_def
      ex_roundA_fields ex_round_def NewSchedulingContext_def
      ex_jctx1_def ex_job1_def ex_queueA_def IsSuccessful_def Let_def)

section \<open>Allocation by queue and priority class\<close>




end
